theory Spec2Isabelle
  imports Main "HOL-Library.Word"
begin

section \<open>Native values, status codes and the Script object\<close>

text \<open>
  A COM object (document, window, element, function object) is represented by its
  identity, a \<open>handle\<close>; a possibly-NULL interface pointer is a \<open>handle option\<close>.
\<close>

type_synonym handle = nat

text \<open>The variant type tags that \<open>Script.cpp\<close> inspects, and the variants carrying them.
  Floating point payloads are kept as their bit patterns; they are only moved around.\<close>

datatype VARTYPE = VT_EMPTY | VT_NULL | VT_I4 | VT_I8 | VT_R4 | VT_R8 | VT_BOOL | VT_BSTR | VT_DISPATCH

datatype variant =
    V_EMPTY
  | V_NULL
  | V_I4 "32 word"
  | V_I8 "64 word"
  | V_R4 "32 word"
  | V_R8 "64 word"
  | V_BOOL bool
  | V_BSTR string
  | V_DISPATCH handle

fun vt :: "variant \<Rightarrow> VARTYPE" where
  "vt V_EMPTY = VT_EMPTY"
| "vt V_NULL = VT_NULL"
| "vt (V_I4 _) = VT_I4"
| "vt (V_I8 _) = VT_I8"
| "vt (V_R4 _) = VT_R4"
| "vt (V_R8 _) = VT_R8"
| "vt (V_BOOL _) = VT_BOOL"
| "vt (V_BSTR _) = VT_BSTR"
| "vt (V_DISPATCH _) = VT_DISPATCH"

text \<open>
  The status codes of \<open>errorcodes.h\<close> that \<open>Script.cpp\<close> names. The header is not part of
  the sources at hand, so the codes are kept symbolic; \<open>OTHER_STATUS\<close> stands for any
  further code a collaborator (element registry, worker window) may answer with.
\<close>

datatype status = WD_SUCCESS | ENOSUCHDOCUMENT | EUNEXPECTEDJSERROR | EOBSOLETEELEMENT | OTHER_STATUS int

text \<open>
  The fields of class \<open>Script\<close> (the trailing underscore of the C++ member names is
  dropped). \<open>out_of_range\<close> is a ghost field: it records that \<open>operator[]\<close> of the argument
  vector has been applied at an index that is not below \<open>size()\<close>. The C++ code performs
  no check there; from that point on the model only follows the nominal execution in
  which the stray store does not disturb the object.
\<close>

record Script =
  script_engine_host :: "handle option"
  source_code :: string
  argument_count :: nat
  current_arg_index :: nat
  argument_array :: "variant list"
  result :: variant
  out_of_range :: bool

text \<open>\<open>std::vector::resize\<close>: keep the leading elements, fill up with default variants.\<close>

definition resize :: "variant list \<Rightarrow> nat \<Rightarrow> variant list" where
  "resize v n = take n v @ replicate (n - length v) V_EMPTY"

text \<open>\<open>Script::Initialize\<close>, run by every constructor on the freshly built object
  (empty vector, default-constructed result).\<close>

definition Initialize :: "handle option \<Rightarrow> string \<Rightarrow> nat \<Rightarrow> Script" where
  "Initialize document script_source argument_count' =
     \<lparr> script_engine_host = document,
       source_code = script_source,
       argument_count = argument_count',
       current_arg_index = 0,
       argument_array = resize [] argument_count',
       result = V_EMPTY,
       out_of_range = False \<rparr>"

text \<open>\<open>Script::AddArgument(VARIANT)\<close>: store at the current index, advance the index.
  There is no bounds check in the source.\<close>

definition AddArgument_VARIANT :: "variant \<Rightarrow> Script \<Rightarrow> Script" where
  "AddArgument_VARIANT argument s =
     (if current_arg_index s < length (argument_array s)
      then s\<lparr> argument_array := (argument_array s)[current_arg_index s := argument],
              current_arg_index := current_arg_index s + 1 \<rparr>
      else s\<lparr> current_arg_index := current_arg_index s + 1,
              out_of_range := True \<rparr>)"

text \<open>
  Strings. A \<open>std::string\<close> or \<open>std::wstring\<close> is a list of characters that may hold
  the character NUL; \<open>c_str()\<close> hands it over as a NUL-terminated string, so whoever
  reads that sees the characters before the first NUL only. \<open>StringUtilities::ToWString\<close>
  changes the encoding of the characters, which the model does not distinguish.
\<close>

definition c_str :: "string \<Rightarrow> string" where
  "c_str t = takeWhile (\<lambda>c. c \<noteq> CHR 0x00) t"

definition ToWString :: "string \<Rightarrow> string" where
  "ToWString t = t"

text \<open>The typed overloads wrap their argument in a variant and delegate. The one for a
  wide string builds the variant from \<open>argument.c_str()\<close>; the one for a narrow string
  converts and calls it.\<close>

definition AddArgument_wstring :: "string \<Rightarrow> Script \<Rightarrow> Script" where
  "AddArgument_wstring argument s = AddArgument_VARIANT (V_BSTR (c_str argument)) s"

definition AddArgument_string :: "string \<Rightarrow> Script \<Rightarrow> Script" where
  "AddArgument_string argument s = AddArgument_wstring (ToWString argument) s"

definition AddArgument_int :: "32 word \<Rightarrow> Script \<Rightarrow> Script" where
  "AddArgument_int argument s = AddArgument_VARIANT (V_I4 argument) s"

definition AddArgument_double :: "64 word \<Rightarrow> Script \<Rightarrow> Script" where
  "AddArgument_double argument s = AddArgument_VARIANT (V_R8 argument) s"

definition AddArgument_bool :: "bool \<Rightarrow> Script \<Rightarrow> Script" where
  "AddArgument_bool argument s = AddArgument_VARIANT (V_BOOL argument) s"

definition AddArgument_IHTMLElement :: "handle \<Rightarrow> Script \<Rightarrow> Script" where
  "AddArgument_IHTMLElement argument s = AddArgument_VARIANT (V_DISPATCH argument) s"

definition AddNullArgument :: "Script \<Rightarrow> Script" where
  "AddNullArgument s = AddArgument_VARIANT V_NULL s"

section \<open>JSON-like values and the collaborators of the synchronous path\<close>

text \<open>
  A \<open>Json::Value\<close>, by the first of the kind tests of \<open>Script::AddArgument\<close> that it
  passes (\<open>isString\<close>, \<open>isInt\<close>, \<open>isDouble\<close>, \<open>isBool\<close>, \<open>isNull\<close>, \<open>isArray\<close>, \<open>isObject\<close>).
  An object lists its members in enumeration order.
\<close>

datatype json =
    JString string
  | JInt "32 word"
  | JDouble "64 word"
  | JBool bool
  | JNull
  | JArray "json list"
  | JObject "(string \<times> json) list"

text \<open>What \<open>IDispatch::Invoke\<close> answers: success with the value written to the result
  variant, \<open>DISP_E_EXCEPTION\<close> with the exception's description (\<open>None\<close> for a NULL
  description), or another failure.\<close>

datatype invoke_result = S_OK variant | DISP_E_EXCEPTION "string option" | OTHER_FAILURE

text \<open>
  The host engine, the element registry and the JSON library are collaborators whose
  code is outside \<open>Script.cpp\<close>; their answers are parameters of the model.
  \<^item> \<open>get_parentWindow k doc\<close>: the window of \<open>doc\<close>, \<open>None\<close> when the call fails; \<open>k\<close> tells
    the call in \<open>CreateAnonymousFunction\<close> (0) from the one in \<open>Execute\<close> (1).
  \<^item> \<open>execScript window code\<close>: whether evaluating \<open>code\<close> succeeds.
  \<^item> \<open>script_fn doc code\<close>: \<open>GetVariantObjectPropertyValue\<close> of \<open>__webdriver_script_fn\<close>
    after \<open>code\<close> has been evaluated; \<open>None\<close> when it answers false.
  \<^item> \<open>GetIDsOfNames f name\<close>: the dispatch id of member \<open>name\<close>, \<open>None\<close> on failure.
  \<^item> \<open>Invoke f id params\<close>: the call itself, \<open>params\<close> being \<open>DISPPARAMS.rgvarg\<close>.
  \<^item> \<open>managed_element h id\<close>: the answer of the registry window \<open>h\<close> to
    \<open>WD_GET_MANAGED_ELEMENT\<close>, a status code and the element stored in \<open>info.element\<close>.
  \<^item> \<open>IsAttachedToDom e\<close>, \<open>get_document e\<close>: the two queries on an element.
  \<^item> \<open>asString v\<close>: \<open>Json::Value::asString\<close>.
\<close>

record environment =
  get_parentWindow :: "nat \<Rightarrow> handle \<Rightarrow> handle option"
  execScript :: "handle \<Rightarrow> string \<Rightarrow> bool"
  script_fn :: "handle \<Rightarrow> string \<Rightarrow> variant option"
  GetIDsOfNames :: "handle \<Rightarrow> string \<Rightarrow> nat option"
  Invoke :: "handle \<Rightarrow> nat \<Rightarrow> variant list \<Rightarrow> invoke_result"
  managed_element :: "handle \<Rightarrow> string \<Rightarrow> status \<times> handle"
  IsAttachedToDom :: "handle \<Rightarrow> bool"
  get_document :: "handle \<Rightarrow> handle option"
  asString :: "json \<Rightarrow> string"

section \<open>Synchronous execution\<close>

text \<open>\<open>Script::CreateAnonymousFunction\<close>; \<open>None\<close> is the answer false. The source
  text is appended as \<open>source_code_.c_str()\<close> and the code is handed to the host as
  \<open>function_eval_script.c_str()\<close>.\<close>

definition CreateAnonymousFunction :: "environment \<Rightarrow> handle \<Rightarrow> Script \<Rightarrow> variant option" where
  "CreateAnonymousFunction env doc s =
     (let function_eval_script =
            ''window.document.__webdriver_script_fn = '' @ c_str (source_code s);
          code = c_str function_eval_script
      in case get_parentWindow env 0 doc of
           None \<Rightarrow> None
         | Some window \<Rightarrow>
             if \<not> execScript env window code then None
             else script_fn env doc code)"

text \<open>The copy loop of \<open>Script::Execute\<close>:
  \<open>for (index = 0; index < arg_count; ++index)
     argument_array_copy[arg_count - 1 - index].Copy(&argument_array_[index]);\<close>\<close>

function copy_loop :: "variant list \<Rightarrow> nat \<Rightarrow> variant list \<Rightarrow> variant list" where
  "copy_loop args index argument_array_copy =
     (if index < length args
      then copy_loop args (Suc index)
             (argument_array_copy[length args - 1 - index := args ! index])
      else argument_array_copy)"
  by pat_completeness auto
termination
  by (relation "measure (\<lambda>(args, index, c). length args - index)") auto

declare copy_loop.simps [simp del]

text \<open>The array handed to \<open>Invoke\<close>: \<open>arg_count + 1\<close> default variants, the window stored
  in the last slot, then the copy loop.\<close>

definition call_parameters :: "handle \<Rightarrow> variant list \<Rightarrow> variant list" where
  "call_parameters win args =
     (let arg_count = length args;
          argument_array_copy = (replicate (arg_count + 1) V_EMPTY)[arg_count := V_DISPATCH win]
      in copy_loop args 0 argument_array_copy)"

text \<open>An invocation made through \<open>IDispatch::Invoke\<close>: function object, member id and
  the parameter array.\<close>

type_synonym invocation = "handle \<times> nat \<times> variant list"

text \<open>\<open>Script::Execute\<close>: the status code, the Script afterwards and the invocations made.
  The description of an exception is taken over as a NUL-terminated string.\<close>

definition Execute :: "environment \<Rightarrow> Script \<Rightarrow> status \<times> Script \<times> invocation list" where
  "Execute env s =
     (case script_engine_host s of
        None \<Rightarrow> (ENOSUCHDOCUMENT, s, [])
      | Some doc \<Rightarrow>
         (case CreateAnonymousFunction env doc s of
            None \<Rightarrow> (EUNEXPECTEDJSERROR, s, [])
          | Some temp_function \<Rightarrow>
             (case temp_function of
                V_DISPATCH pdispVal \<Rightarrow>
                  (case GetIDsOfNames env pdispVal ''call'' of
                     None \<Rightarrow> (EUNEXPECTEDJSERROR, s, [])
                   | Some call_member_id \<Rightarrow>
                      (case get_parentWindow env 1 doc of
                         None \<Rightarrow> (EUNEXPECTEDJSERROR, s, [])
                       | Some win \<Rightarrow>
                          (let argument_array_copy = call_parameters win (argument_array s);
                               made = [(pdispVal, call_member_id, argument_array_copy)]
                           in case Invoke env pdispVal call_member_id argument_array_copy of
                                S_OK r \<Rightarrow> (WD_SUCCESS, s\<lparr>result := r\<rparr>, made)
                              | DISP_E_EXCEPTION bstrDescription \<Rightarrow>
                                  (EUNEXPECTEDJSERROR,
                                   s\<lparr>result := V_BSTR (case bstrDescription of
                                                          Some d \<Rightarrow> c_str d
                                                        | None \<Rightarrow> ''EUNEXPECTEDJSERROR'')\<rparr>,
                                   made)
                              | OTHER_FAILURE \<Rightarrow>
                                  (EUNEXPECTEDJSERROR, s\<lparr>result := V_BSTR ''''\<rparr>, made))))
              | _ \<Rightarrow> (WD_SUCCESS, s, []))))"

section \<open>Argument ingestion from JSON-like values\<close>

text \<open>\<open>std::to_string\<close> / \<open>std::to_wstring\<close> of a non-negative index: its decimal digits.\<close>

definition digit :: "nat \<Rightarrow> char" where
  "digit d = ''0123456789'' ! d"

function to_string :: "nat \<Rightarrow> string" where
  "to_string n = (if n < 10 then [digit n] else to_string (n div 10) @ [digit (n mod 10)])"
  by pat_completeness auto
termination
  by (relation "measure (\<lambda>n. n)") auto

declare to_string.simps [simp del]

definition element_marker_property_name :: string where
  "element_marker_property_name = ''element-6066-11e4-a52e-4f735466cecf''"

text \<open>\<open>Json::Value::isMember\<close> and the read-only \<open>operator[]\<close> on an object (a null value
  for an absent name).\<close>

definition isMember :: "(string \<times> json) list \<Rightarrow> string \<Rightarrow> bool" where
  "isMember members name = (map_of members name \<noteq> None)"

definition member :: "(string \<times> json) list \<Rightarrow> string \<Rightarrow> json" where
  "member members name = (case map_of members name of Some v \<Rightarrow> v | None \<Rightarrow> JNull)"

text \<open>The loop of \<open>WalkArray\<close> that writes the body of the array literal.\<close>

function array_script_loop :: "nat \<Rightarrow> nat \<Rightarrow> string \<Rightarrow> string" where
  "array_script_loop array_size index array_script =
     (if index < array_size
      then array_script_loop array_size (Suc index)
             ((if index \<noteq> 0 then array_script @ '','' else array_script)
              @ ''arguments['' @ to_string index @ '']'')
      else array_script)"
  by pat_completeness auto
termination
  by (relation "measure (\<lambda>(array_size, index, a). array_size - index)") auto

declare array_script_loop.simps [simp del]

text \<open>The loop of \<open>WalkObject\<close> that writes the body of the object literal; it also
  yields the final value of \<open>counter\<close>. \<open>it.memberName()\<close> is a NUL-terminated string.
  \<open>CHR 0x22\<close> is the double quote.\<close>

fun object_script_loop :: "(string \<times> json) list \<Rightarrow> nat \<Rightarrow> string \<Rightarrow> string \<times> nat" where
  "object_script_loop [] counter object_script = (object_script, counter)"
| "object_script_loop (it # rest) counter object_script =
     object_script_loop rest (counter + 1)
       ((if counter \<noteq> 0 then object_script @ '','' else object_script)
        @ [CHR 0x22] @ c_str (fst it) @ [CHR 0x22]
        @ '':arguments['' @ to_string counter @ '']'')"

text \<open>
  \<open>Script::AddArgument(HWND, Json::Value)\<close>, \<open>Script::WalkArray\<close> and \<open>Script::WalkObject\<close>,
  each answering the status code and the Script afterwards. The two \<open>_loop\<close> functions
  are the \<open>for\<close> loops that feed the synthetic invocation and leave at the first status
  other than \<open>WD_SUCCESS\<close>; the one of \<open>WalkObject\<close> reads each value as
  \<open>object_value[it.memberName()]\<close>. \<open>IsEqualObject\<close> compares the two interface pointers
  (two NULL pointers are equal).
\<close>

function AddArgument :: "environment \<Rightarrow> handle \<Rightarrow> json \<Rightarrow> Script \<Rightarrow> status \<times> Script"
  and WalkArray :: "environment \<Rightarrow> handle \<Rightarrow> json list \<Rightarrow> Script \<Rightarrow> status \<times> Script"
  and WalkArray_loop :: "environment \<Rightarrow> handle \<Rightarrow> json list \<Rightarrow> Script \<Rightarrow> status \<times> Script"
  and WalkObject :: "environment \<Rightarrow> handle \<Rightarrow> (string \<times> json) list \<Rightarrow> Script \<Rightarrow> status \<times> Script"
  and WalkObject_loop :: "environment \<Rightarrow> handle \<Rightarrow> (string \<times> json) list \<Rightarrow> (string \<times> json) list
                            \<Rightarrow> Script \<Rightarrow> status \<times> Script"
where
  "AddArgument env h (JString v) s = (WD_SUCCESS, AddArgument_string v s)"
| "AddArgument env h (JInt int_number) s = (WD_SUCCESS, AddArgument_int int_number s)"
| "AddArgument env h (JDouble dbl_number) s = (WD_SUCCESS, AddArgument_double dbl_number s)"
| "AddArgument env h (JBool bool_arg) s = (WD_SUCCESS, AddArgument_bool bool_arg s)"
| "AddArgument env h JNull s = (WD_SUCCESS, AddNullArgument s)"
| "AddArgument env h (JArray array_value) s = WalkArray env h array_value s"
| "AddArgument env h (JObject members) s =
     (if isMember members element_marker_property_name
      then (let element_id = asString env (member members element_marker_property_name);
                (status_code, element) = managed_element env h element_id
            in if status_code = WD_SUCCESS
               then (let is_element_valid = IsAttachedToDom env element;
                         is_element_valid = (if is_element_valid
                                             then script_engine_host s = get_document env element
                                             else is_element_valid)
                     in if is_element_valid
                        then (status_code, AddArgument_IHTMLElement element s)
                        else (EOBSOLETEELEMENT, s))
               else (status_code, s))
      else WalkObject env h members s)"
| "WalkArray env h array_value s =
     (let array_size = length array_value;
          array_script = ''(function(){ return function() { return ['';
          array_script = array_script_loop array_size 0 array_script;
          array_script = array_script @ ''];}})();'';
          array_script_wrapper = Initialize (script_engine_host s) array_script array_size;
          (status_code, array_script_wrapper) =
             WalkArray_loop env h array_value array_script_wrapper;
          (status_code, array_script_wrapper) =
             (if status_code = WD_SUCCESS
              then (case Execute env array_script_wrapper of (c, w, made) \<Rightarrow> (c, w))
              else (status_code, array_script_wrapper))
      in if status_code = WD_SUCCESS
         then (status_code, AddArgument_VARIANT (result array_script_wrapper) s)
         else (status_code, s))"
| "WalkArray_loop env h [] w = (WD_SUCCESS, w)"
| "WalkArray_loop env h (v # rest) w =
     (case AddArgument env h v w of
        (status_code, w') \<Rightarrow>
          if status_code \<noteq> WD_SUCCESS then (status_code, w')
          else WalkArray_loop env h rest w')"
| "WalkObject env h object_value s =
     (let object_script = ''(function(){ return function() { return {'';
          (object_script, counter) = object_script_loop object_value 0 object_script;
          object_script = object_script @ ''};}})();'';
          object_script_wrapper =
             Initialize (script_engine_host s) (ToWString object_script) counter;
          (status_code, object_script_wrapper) =
             WalkObject_loop env h object_value object_value object_script_wrapper;
          (status_code, object_script_wrapper) =
             (if status_code = WD_SUCCESS
              then (case Execute env object_script_wrapper of (c, w, made) \<Rightarrow> (c, w))
              else (status_code, object_script_wrapper))
      in if status_code = WD_SUCCESS
         then (status_code, AddArgument_VARIANT (result object_script_wrapper) s)
         else (status_code, s))"
| "WalkObject_loop env h object_value [] w = (WD_SUCCESS, w)"
| "WalkObject_loop env h object_value (it # rest) w =
     (case AddArgument env h (member object_value (c_str (fst it))) w of
        (status_code, w') \<Rightarrow>
          if status_code \<noteq> WD_SUCCESS then (status_code, w')
          else WalkObject_loop env h object_value rest w')"
  by pat_completeness auto
termination
  apply (relation "inv_image (less_than <*lex*> less_than <*lex*> less_than)
     (\<lambda>x. case x of
        Inl (Inl (env, h, arg, s)) \<Rightarrow> (size arg, 2::nat, 0::nat)
      | Inl (Inr (env, h, a, s)) \<Rightarrow> (size (JArray a), 1, 0)
      | Inr (Inl (env, h, a, s)) \<Rightarrow> (size (JArray a), 0, 0)
      | Inr (Inr (Inl (env, h, ms, s))) \<Rightarrow> (size (JObject ms), 1, 0)
      | Inr (Inr (Inr (env, h, ms, it, s))) \<Rightarrow> (size (JObject ms), 0, length it))")
   apply auto
  subgoal for object_value name
  proof -
    have "size (member ms k) < Suc (size_list (size_prod (\<lambda>x. 0) size) ms)" for ms k
      by (induction ms) (auto simp: member_def split: option.splits)
    then show ?thesis by simp
  qed
  done

declare AddArgument.simps [simp del] WalkArray.simps [simp del] WalkObject.simps [simp del]

text \<open>\<open>Script::AddArguments\<close>: resize the vector to the size of the JSON array, then the
  loop over its elements.\<close>

fun AddArguments_loop :: "environment \<Rightarrow> handle \<Rightarrow> json list \<Rightarrow> Script \<Rightarrow> status \<times> Script" where
  "AddArguments_loop env h [] s = (WD_SUCCESS, s)"
| "AddArguments_loop env h (arg # rest) s =
     (case AddArgument env h arg s of
        (status_code, s') \<Rightarrow>
          if status_code \<noteq> WD_SUCCESS then (status_code, s')
          else AddArguments_loop env h rest s')"

definition AddArguments :: "environment \<Rightarrow> handle \<Rightarrow> json list \<Rightarrow> Script \<Rightarrow> status \<times> Script" where
  "AddArguments env h arguments s =
     AddArguments_loop env h arguments
       (s\<lparr> argument_array := resize (argument_array s) (length arguments) \<rparr>)"

section \<open>Asynchronous execution\<close>

text \<open>
  The asynchronous entry points talk to the operating system and to the window of the
  worker thread. The model lists the calls they make, in order, and takes the answers as
  parameters.
\<close>

type_synonym stream = nat

datatype message =
    WD_ASYNC_SCRIPT_SET_DOCUMENT
  | WD_ASYNC_SCRIPT_SET_ARGUMENT
  | WD_ASYNC_SCRIPT_EXECUTE
  | WD_ASYNC_SCRIPT_IS_EXECUTION_COMPLETE
  | WD_ASYNC_SCRIPT_GET_RESULT
  | WD_ASYNC_SCRIPT_DETACH_LISTENTER

text \<open>
  The two parameters of a window message. \<open>W_NULL\<close> is the NULL \<open>wparam\<close>, \<open>W_VARTYPE t\<close>
  the type tag \<open>arg.vt\<close>. An \<open>lparam\<close> is a number (NULL is \<open>L_VALUE 0\<close>), a stream
  produced by \<open>CoMarshalInterThreadInterfaceInStream\<close>, or the address of the value field
  of the local copy \<open>arg\<close> of an argument, written \<open>L_POINTER arg\<close>.
\<close>

datatype WPARAM = W_NULL | W_VARTYPE VARTYPE

datatype LPARAM = L_VALUE int | L_STREAM stream | L_POINTER variant

datatype wait_result = WAIT_OBJECT_0 | WAIT_TIMEOUT | WAIT_FAILED

datatype create_event_result = CREATE_FAILED | CREATE_ALREADY_EXISTS | CREATED

datatype system_call =
    OpenEvent
  | CloseHandle
  | Sleep nat
  | CreateEvent
  | beginthreadex
  | WaitForSingleObject nat wait_result
  | CoMarshalInterThreadInterfaceInStream "handle option"
  | SendMessage handle message WPARAM LPARAM
  | PostMessage handle message WPARAM LPARAM

text \<open>
  The answers of the system:
  \<^item> \<open>OpenEvent_exists k\<close>: the \<open>k\<close>-th call of \<open>OpenEvent\<close> (counted from 0) finds the named
    event, that is, returns a handle other than NULL;
  \<^item> \<open>CreateEvent_result\<close>: NULL, a handle with \<open>ERROR_ALREADY_EXISTS\<close>, or a new event;
  \<^item> \<open>thread_started\<close>: \<open>_beginthreadex\<close> returned a handle other than NULL;
  \<^item> \<open>wait_for_ready\<close>: what \<open>WaitForSingleObject(event_handle, 5000)\<close> returns;
  \<^item> \<open>worker_hwnd\<close>: \<open>thread_context.hwnd\<close> as read after the wait;
  \<^item> \<open>marshal_document\<close>, \<open>marshal_dispatch\<close>: the stream made for an interface pointer,
    \<open>None\<close> when \<open>CoMarshalInterThreadInterfaceInStream\<close> fails;
  \<^item> \<open>is_execution_complete k\<close>: the answer to the \<open>k\<close>-th completion query (from 0);
  \<^item> \<open>get_result\<close>: the answer to \<open>WD_ASYNC_SCRIPT_GET_RESULT\<close>.
\<close>

record system =
  OpenEvent_exists :: "nat \<Rightarrow> bool"
  CreateEvent_result :: create_event_result
  thread_started :: bool
  wait_for_ready :: wait_result
  worker_hwnd :: handle
  marshal_document :: "handle option \<Rightarrow> stream option"
  marshal_dispatch :: "handle \<Rightarrow> stream option"
  is_execution_complete :: "nat \<Rightarrow> bool"
  get_result :: status

text \<open>The error descriptions stored as the result on the failure paths.\<close>

definition event_exists_description :: string where
  "event_exists_description = ''Couldn't create an event for synchronizing the creation of the thread. This generally means that you were trying to click on an option in two different instances.''"

definition create_event_failed_description :: string where
  "create_event_failed_description = ''Couldn't create an event for synchronizing the creation of the thread. This is an internal failure at the Windows OS level, and is generally not due to an error in the IE driver.''"

definition event_already_created_description :: string where
  "event_already_created_description = ''Couldn't create an event for synchronizing the creation of the thread. This generally means that you were trying to click on an option in multiple different instances.''"

definition thread_failed_description :: string where
  "thread_failed_description = ''Couldn't create the thread for executing JavaScript asynchronously.''"

definition marshal_document_failed_description :: string where
  "marshal_document_failed_description = ''Couldn't marshal the IHTMLDocument2 interface to a stream. This is an internal COM error.''"

definition marshal_dispatch_failed_description :: string where
  "marshal_dispatch_failed_description = ''Couldn't marshal the IDispatch interface to a stream. This is an internal COM error.''"

text \<open>
  The retry loop on the named event,
  \<open>while (event_handle != NULL && --retry_counter > 0) { CloseHandle; Sleep(50); OpenEvent }\<close>:
  \<open>k\<close> counts the calls of \<open>OpenEvent\<close> made so far, \<open>event_handle\<close> tells whether the last
  one found the event. The answer is the final \<open>event_handle\<close> and the calls made.
\<close>

function open_event_loop :: "system \<Rightarrow> nat \<Rightarrow> bool \<Rightarrow> int \<Rightarrow> bool \<times> system_call list" where
  "open_event_loop sys k event_handle retry_counter =
     (if event_handle \<and> retry_counter - 1 > 0
      then (case open_event_loop sys (Suc k) (OpenEvent_exists sys k) (retry_counter - 1) of
              (event_handle', calls) \<Rightarrow> (event_handle', [CloseHandle, Sleep 50, OpenEvent] @ calls))
      else (event_handle, []))"
  by pat_completeness auto
termination
  by (relation "measure (\<lambda>(sys, k, e, retry_counter). nat retry_counter)") auto

declare open_event_loop.simps [simp del]

text \<open>
  The common first part of \<open>ExecuteAsync\<close> and \<open>BeginAsyncExecution\<close> (the same text in
  both): exclusive access to the named event, its creation, the start of the worker
  thread and the wait for it. \<open>Inl\<close> is an early return (status code, Script, calls made);
  \<open>Inr\<close> carries \<open>executor_handle\<close> and the calls made.
\<close>

definition start_executor :: "system \<Rightarrow> Script
    \<Rightarrow> (status \<times> Script \<times> system_call list) + (handle \<times> system_call list)" where
  "start_executor sys s =
     (case open_event_loop sys 1 (OpenEvent_exists sys 0) 50 of
        (event_handle, retries) \<Rightarrow>
          (let calls = [OpenEvent] @ retries
           in if event_handle
              then Inl (EUNEXPECTEDJSERROR,
                        s\<lparr>result := V_BSTR event_exists_description\<rparr>,
                        calls @ [CloseHandle])
              else (case CreateEvent_result sys of
                      CREATE_FAILED \<Rightarrow>
                        Inl (EUNEXPECTEDJSERROR,
                             s\<lparr>result := V_BSTR create_event_failed_description\<rparr>,
                             calls @ [CreateEvent])
                    | CREATE_ALREADY_EXISTS \<Rightarrow>
                        Inl (EUNEXPECTEDJSERROR,
                             s\<lparr>result := V_BSTR event_already_created_description\<rparr>,
                             calls @ [CreateEvent, CloseHandle])
                    | CREATED \<Rightarrow>
                        (let calls = calls @ [CreateEvent, beginthreadex,
                                              WaitForSingleObject 5000 (wait_for_ready sys),
                                              CloseHandle]
                         in if \<not> thread_started sys
                            then Inl (EUNEXPECTEDJSERROR,
                                      s\<lparr>result := V_BSTR thread_failed_description\<rparr>,
                                      calls)
                            else Inr (worker_hwnd sys, calls)))))"

text \<open>
  The argument loop of \<open>ExecuteAsync\<close>: a \<open>VT_DISPATCH\<close> argument is marshalled into a
  stream; for every other type \<open>lparam\<close> stays NULL. \<open>Inl\<close> is the early return on a
  marshalling failure, \<open>Inr\<close> the normal end of the loop, each with the calls made.
\<close>

fun ExecuteAsync_arguments :: "system \<Rightarrow> handle \<Rightarrow> variant list
    \<Rightarrow> system_call list + system_call list" where
  "ExecuteAsync_arguments sys executor_handle [] = Inr []"
| "ExecuteAsync_arguments sys executor_handle (arg # rest) =
     (case arg of
        V_DISPATCH pdispVal \<Rightarrow>
          (case marshal_dispatch sys pdispVal of
             None \<Rightarrow> Inl [CoMarshalInterThreadInterfaceInStream (Some pdispVal)]
           | Some dispatch_stream \<Rightarrow>
               (case ExecuteAsync_arguments sys executor_handle rest of
                  Inl calls \<Rightarrow>
                    Inl ([CoMarshalInterThreadInterfaceInStream (Some pdispVal),
                          SendMessage executor_handle WD_ASYNC_SCRIPT_SET_ARGUMENT
                            (W_VARTYPE (vt arg)) (L_STREAM dispatch_stream)] @ calls)
                | Inr calls \<Rightarrow>
                    Inr ([CoMarshalInterThreadInterfaceInStream (Some pdispVal),
                          SendMessage executor_handle WD_ASYNC_SCRIPT_SET_ARGUMENT
                            (W_VARTYPE (vt arg)) (L_STREAM dispatch_stream)] @ calls)))
      | _ \<Rightarrow>
          (case ExecuteAsync_arguments sys executor_handle rest of
             Inl calls \<Rightarrow>
               Inl (SendMessage executor_handle WD_ASYNC_SCRIPT_SET_ARGUMENT
                      (W_VARTYPE (vt arg)) (L_VALUE 0) # calls)
           | Inr calls \<Rightarrow>
               Inr (SendMessage executor_handle WD_ASYNC_SCRIPT_SET_ARGUMENT
                      (W_VARTYPE (vt arg)) (L_VALUE 0) # calls)))"

text \<open>
  The \<open>lparam\<close> that the argument loop of \<open>BeginAsyncExecution\<close> computes for an argument
  that is not a \<open>VT_DISPATCH\<close>. \<open>arg.intVal\<close> is the 32-bit member of the variant's union,
  for a \<open>VT_I8\<close> its low half; the cast to \<open>LPARAM\<close> keeps the sign.
\<close>

fun BeginAsyncExecution_lparam :: "variant \<Rightarrow> LPARAM" where
  "BeginAsyncExecution_lparam (V_BSTR b) = L_POINTER (V_BSTR b)"
| "BeginAsyncExecution_lparam (V_BOOL b) = L_VALUE (if b then 1 else 0)"
| "BeginAsyncExecution_lparam (V_I4 n) = L_VALUE (sint n)"
| "BeginAsyncExecution_lparam (V_I8 n) = L_VALUE (sint (ucast n :: 32 word))"
| "BeginAsyncExecution_lparam (V_R4 r) = L_POINTER (V_R4 r)"
| "BeginAsyncExecution_lparam (V_R8 r) = L_POINTER (V_R8 r)"
| "BeginAsyncExecution_lparam arg = L_VALUE 0"

fun BeginAsyncExecution_arguments :: "system \<Rightarrow> handle \<Rightarrow> variant list
    \<Rightarrow> system_call list + system_call list" where
  "BeginAsyncExecution_arguments sys executor_handle [] = Inr []"
| "BeginAsyncExecution_arguments sys executor_handle (arg # rest) =
     (case arg of
        V_DISPATCH pdispVal \<Rightarrow>
          (case marshal_dispatch sys pdispVal of
             None \<Rightarrow> Inl [CoMarshalInterThreadInterfaceInStream (Some pdispVal)]
           | Some dispatch_stream \<Rightarrow>
               (case BeginAsyncExecution_arguments sys executor_handle rest of
                  Inl calls \<Rightarrow>
                    Inl ([CoMarshalInterThreadInterfaceInStream (Some pdispVal),
                          SendMessage executor_handle WD_ASYNC_SCRIPT_SET_ARGUMENT
                            (W_VARTYPE (vt arg)) (L_STREAM dispatch_stream)] @ calls)
                | Inr calls \<Rightarrow>
                    Inr ([CoMarshalInterThreadInterfaceInStream (Some pdispVal),
                          SendMessage executor_handle WD_ASYNC_SCRIPT_SET_ARGUMENT
                            (W_VARTYPE (vt arg)) (L_STREAM dispatch_stream)] @ calls)))
      | _ \<Rightarrow>
          (case BeginAsyncExecution_arguments sys executor_handle rest of
             Inl calls \<Rightarrow>
               Inl (SendMessage executor_handle WD_ASYNC_SCRIPT_SET_ARGUMENT
                      (W_VARTYPE (vt arg)) (BeginAsyncExecution_lparam arg) # calls)
           | Inr calls \<Rightarrow>
               Inr (SendMessage executor_handle WD_ASYNC_SCRIPT_SET_ARGUMENT
                      (W_VARTYPE (vt arg)) (BeginAsyncExecution_lparam arg) # calls)))"

text \<open>Integer division of C++: the quotient is truncated towards zero.\<close>

definition c_div :: "int \<Rightarrow> int \<Rightarrow> int" where
  "c_div a b = sgn a * sgn b * (\<bar>a\<bar> div \<bar>b\<bar>)"

text \<open>
  The polling loop,
  \<open>while (!is_execution_finished && --retry_counter > 0) { Sleep(10); SendMessage(IS_EXECUTION_COMPLETE) }\<close>:
  \<open>k\<close> counts the completion queries made so far.
\<close>

function poll_loop :: "system \<Rightarrow> handle \<Rightarrow> nat \<Rightarrow> bool \<Rightarrow> int \<Rightarrow> bool \<times> system_call list" where
  "poll_loop sys executor_handle k is_execution_finished retry_counter =
     (if \<not> is_execution_finished \<and> retry_counter - 1 > 0
      then (case poll_loop sys executor_handle (Suc k) (is_execution_complete sys k)
                   (retry_counter - 1) of
              (finished, calls) \<Rightarrow>
                (finished,
                 [Sleep 10,
                  SendMessage executor_handle WD_ASYNC_SCRIPT_IS_EXECUTION_COMPLETE
                    W_NULL (L_VALUE 0)] @ calls))
      else (is_execution_finished, []))"
  by pat_completeness auto
termination
  by (relation "measure (\<lambda>(sys, h, k, f, retry_counter). nat retry_counter)") auto

declare poll_loop.simps [simp del]

text \<open>\<open>Script::ExecuteAsync\<close>: the status code, the Script afterwards and the calls made.\<close>

definition ExecuteAsync :: "system \<Rightarrow> Script \<Rightarrow> int \<Rightarrow> status \<times> Script \<times> system_call list" where
  "ExecuteAsync sys s timeout_in_milliseconds =
     (case start_executor sys s of
        Inl early \<Rightarrow> early
      | Inr (executor_handle, started) \<Rightarrow>
         (let calls = started @ [CoMarshalInterThreadInterfaceInStream (script_engine_host s)]
          in case marshal_document sys (script_engine_host s) of
               None \<Rightarrow>
                 (EUNEXPECTEDJSERROR,
                  s\<lparr>result := V_BSTR marshal_document_failed_description\<rparr>, calls)
             | Some document_stream \<Rightarrow>
                (let calls = calls @ [SendMessage executor_handle WD_ASYNC_SCRIPT_SET_DOCUMENT
                                        W_NULL (L_STREAM document_stream)]
                 in case ExecuteAsync_arguments sys executor_handle (argument_array s) of
                      Inl sent \<Rightarrow>
                        (EUNEXPECTEDJSERROR,
                         s\<lparr>result := V_BSTR marshal_dispatch_failed_description\<rparr>,
                         calls @ sent)
                    | Inr sent \<Rightarrow>
                       (let calls = calls @ sent
                              @ [PostMessage executor_handle WD_ASYNC_SCRIPT_EXECUTE
                                   W_NULL (L_VALUE 0)];
                            retry_counter = c_div timeout_in_milliseconds 10;
                            calls = calls
                              @ [SendMessage executor_handle
                                   WD_ASYNC_SCRIPT_IS_EXECUTION_COMPLETE W_NULL (L_VALUE 0)]
                        in case poll_loop sys executor_handle 1
                                  (is_execution_complete sys 0) retry_counter of
                             (is_execution_finished, polls) \<Rightarrow>
                               if is_execution_finished
                               then (get_result sys, s,
                                     calls @ polls
                                       @ [SendMessage executor_handle
                                            WD_ASYNC_SCRIPT_GET_RESULT W_NULL (L_VALUE 0)])
                               else (WD_SUCCESS, s,
                                     calls @ polls
                                       @ [SendMessage executor_handle
                                            WD_ASYNC_SCRIPT_DETACH_LISTENTER
                                            W_NULL (L_VALUE 0)])))))"

text \<open>\<open>Script::BeginAsyncExecution\<close>: the status code, the Script afterwards, the value
  written to \<open>*async_executor_handle\<close> (\<open>None\<close> when it is not written) and the calls made.\<close>

definition BeginAsyncExecution :: "system \<Rightarrow> Script
    \<Rightarrow> status \<times> Script \<times> handle option \<times> system_call list" where
  "BeginAsyncExecution sys s =
     (case start_executor sys s of
        Inl (status_code, s', calls) \<Rightarrow> (status_code, s', None, calls)
      | Inr (executor_handle, started) \<Rightarrow>
         (let calls = started @ [CoMarshalInterThreadInterfaceInStream (script_engine_host s)]
          in case marshal_document sys (script_engine_host s) of
               None \<Rightarrow>
                 (EUNEXPECTEDJSERROR,
                  s\<lparr>result := V_BSTR marshal_document_failed_description\<rparr>,
                  Some executor_handle, calls)
             | Some document_stream \<Rightarrow>
                (let calls = calls @ [SendMessage executor_handle WD_ASYNC_SCRIPT_SET_DOCUMENT
                                        W_NULL (L_STREAM document_stream)]
                 in case BeginAsyncExecution_arguments sys executor_handle (argument_array s) of
                      Inl sent \<Rightarrow>
                        (EUNEXPECTEDJSERROR,
                         s\<lparr>result := V_BSTR marshal_dispatch_failed_description\<rparr>,
                         Some executor_handle, calls @ sent)
                    | Inr sent \<Rightarrow>
                        (WD_SUCCESS, s, Some executor_handle,
                         calls @ sent
                           @ [PostMessage executor_handle WD_ASYNC_SCRIPT_EXECUTE
                                W_NULL (L_VALUE 0)]))))"

text \<open>
  Time spent in the calls. \<open>Sleep(ms)\<close> keeps the caller for \<open>ms\<close> milliseconds; a wait
  with timeout \<open>ms\<close> keeps it for at most \<open>ms\<close>, and for the whole of \<open>ms\<close> when it ends
  with \<open>WAIT_TIMEOUT\<close>. No time is counted for the other calls; in particular the time
  that \<open>SendMessage\<close> waits for the worker's window procedure is not part of the model.
  So \<open>blocked_at_least\<close> is a lower bound on the duration of the calls listed, and
  \<open>blocked_at_most\<close> an upper bound on the part of it spent in sleeps and waits.
\<close>

fun at_least_ms :: "system_call \<Rightarrow> nat" where
  "at_least_ms (Sleep ms) = ms"
| "at_least_ms (WaitForSingleObject ms WAIT_TIMEOUT) = ms"
| "at_least_ms c = 0"

fun at_most_ms :: "system_call \<Rightarrow> nat" where
  "at_most_ms (Sleep ms) = ms"
| "at_most_ms (WaitForSingleObject ms r) = ms"
| "at_most_ms c = 0"

definition blocked_at_least :: "system_call list \<Rightarrow> nat" where
  "blocked_at_least calls = sum_list (map at_least_ms calls)"

definition blocked_at_most :: "system_call list \<Rightarrow> nat" where
  "blocked_at_most calls = sum_list (map at_most_ms calls)"

text \<open>The calls that hand something to the worker: a marshalling or a window message.\<close>

fun is_handoff :: "system_call \<Rightarrow> bool" where
  "is_handoff (CoMarshalInterThreadInterfaceInStream p) = True"
| "is_handoff (SendMessage w m wp lp) = True"
| "is_handoff (PostMessage w m wp lp) = True"
| "is_handoff c = False"

section \<open>The composite walks as the specification describes them\<close>

text \<open>
  The specification describes the ingestion of a composite value by what it produces.
  For an array: a script body that returns the array literal
  \<open>[arguments[0], arguments[1], ...]\<close>; a fresh invocation over that body, declared with
  as many arguments as the array has elements; each element ingested into it in turn,
  an element that is itself composite going through an invocation of its own; a
  synchronous execution; and, on success, the single result added to the enclosing
  invocation. For an object that is not an element reference: the same with an object
  literal whose field names are the member names and whose values are \<open>arguments[k]\<close>
  in enumeration order. The definitions of this section follow that description by
  recursion over the value; they use neither the walks nor the loops of the source.
\<close>

fun comma_separated :: "string list \<Rightarrow> string" where
  "comma_separated [] = []"
| "comma_separated [x] = x"
| "comma_separated (x # y # ys) = x @ '','' @ comma_separated (y # ys)"

definition array_literal_script :: "nat \<Rightarrow> string" where
  "array_literal_script n =
     ''(function(){ return function() { return [''
     @ comma_separated (map (\<lambda>k. ''arguments['' @ to_string k @ '']'') [0..<n])
     @ ''];}})();''"

text \<open>
  A field name of an object literal is a string literal of the script language: the
  name between double quotes, in which a double quote or a backslash (\<open>CHR 0x5C\<close>) of the
  name is preceded by a backslash, and a line terminator or a NUL is written as an
  escape: \<open>\n\<close> for the line feed, \<open>\r\<close> for the carriage return, \<open>\u2028\<close> and \<open>\u2029\<close>
  for the line and paragraph separators (three bytes each in a name, which is a sequence
  of bytes in UTF-8) and \<open>\x00\<close> for NUL.
\<close>

fun escaped :: "char \<Rightarrow> string" where
  "escaped c =
     (if c = CHR 0x22 \<or> c = CHR 0x5C then [CHR 0x5C, c]
      else if c = CHR 0x0A then [CHR 0x5C, CHR ''n'']
      else if c = CHR 0x0D then [CHR 0x5C, CHR ''r'']
      else if c = CHR 0x00 then [CHR 0x5C, CHR ''x'', CHR ''0'', CHR ''0'']
      else [c])"

fun escape_text :: "string \<Rightarrow> string" where
  "escape_text [] = []"
| "escape_text (c # cs) =
     (if c = CHR 0xE2 \<and> take 2 cs = [CHR 0x80, CHR 0xA8]
      then [CHR 0x5C] @ ''u2028'' @ escape_text (drop 2 cs)
      else if c = CHR 0xE2 \<and> take 2 cs = [CHR 0x80, CHR 0xA9]
      then [CHR 0x5C] @ ''u2029'' @ escape_text (drop 2 cs)
      else escaped c @ escape_text cs)"

definition string_literal :: "string \<Rightarrow> string" where
  "string_literal name = [CHR 0x22] @ escape_text name @ [CHR 0x22]"

definition object_literal_script :: "string list \<Rightarrow> string" where
  "object_literal_script names =
     ''(function(){ return function() { return {''
     @ comma_separated (map (\<lambda>(k, name). string_literal name
                                 @ '':arguments['' @ to_string k @ '']'') (enumerate 0 names))
     @ ''};}})();''"

text \<open>The end of a composite ingestion: given the outcome of ingesting the elements into
  the synthetic invocation, execute it and add its result to the enclosing invocation;
  a failure of either step is reported and leaves the enclosing invocation as it was.\<close>

definition composite_argument :: "environment \<Rightarrow> status \<times> Script \<Rightarrow> Script \<Rightarrow> status \<times> Script" where
  "composite_argument env ingestion enclosing =
     (case ingestion of
        (ingested, invocation) \<Rightarrow>
          if ingested \<noteq> WD_SUCCESS then (ingested, enclosing)
          else (case Execute env invocation of
                  (executed, invocation', made) \<Rightarrow>
                    if executed \<noteq> WD_SUCCESS then (executed, enclosing)
                    else (WD_SUCCESS, AddArgument_VARIANT (result invocation') enclosing)))"

text \<open>
  The ingestion of a value. \<open>leaf\<close> ingests a value that is not composite (a scalar,
  null or an element reference), which is not the subject here; a composite value goes
  through a synthetic invocation into which its elements are ingested by the same
  function, stopping at the first failure.
\<close>

fun marshal :: "(json \<Rightarrow> Script \<Rightarrow> status \<times> Script) \<Rightarrow> environment \<Rightarrow> json \<Rightarrow> Script
                  \<Rightarrow> status \<times> Script"
  and marshal_each :: "(json \<Rightarrow> Script \<Rightarrow> status \<times> Script) \<Rightarrow> environment \<Rightarrow> json list \<Rightarrow> Script
                  \<Rightarrow> status \<times> Script"
  and marshal_members :: "(json \<Rightarrow> Script \<Rightarrow> status \<times> Script) \<Rightarrow> environment
                  \<Rightarrow> (string \<times> json) list \<Rightarrow> Script \<Rightarrow> status \<times> Script"
where
  "marshal leaf env (JArray elements) enclosing =
     composite_argument env
       (marshal_each leaf env elements
          (Initialize (script_engine_host enclosing)
             (array_literal_script (length elements)) (length elements)))
       enclosing"
| "marshal leaf env (JObject members) enclosing =
     (if isMember members element_marker_property_name then leaf (JObject members) enclosing
      else composite_argument env
             (marshal_members leaf env members
                (Initialize (script_engine_host enclosing)
                   (object_literal_script (map fst members)) (length members)))
             enclosing)"
| "marshal leaf env v enclosing = leaf v enclosing"
| "marshal_each leaf env [] invocation = (WD_SUCCESS, invocation)"
| "marshal_each leaf env (v # rest) invocation =
     (case marshal leaf env v invocation of
        (ingested, invocation') \<Rightarrow>
          if ingested = WD_SUCCESS then marshal_each leaf env rest invocation'
          else (ingested, invocation'))"
| "marshal_members leaf env [] invocation = (WD_SUCCESS, invocation)"
| "marshal_members leaf env ((name, v) # rest) invocation =
     (case marshal leaf env v invocation of
        (ingested, invocation') \<Rightarrow>
          if ingested = WD_SUCCESS then marshal_members leaf env rest invocation'
          else (ingested, invocation'))"



section \<open>Concrete collaborators and scripts\<close>

text \<open>A host in which every step of \<open>Execute\<close> succeeds and the call answers 2; its
  registry knows element 300, which is not attached to a document.\<close>

definition example_host :: environment where
  "example_host =
     \<lparr> get_parentWindow = (\<lambda>k doc. Some 100),
       execScript = (\<lambda>window code. True),
       script_fn = (\<lambda>doc code. Some (V_DISPATCH 200)),
       GetIDsOfNames = (\<lambda>f name. Some 7),
       Invoke = (\<lambda>f m params. S_OK (V_I4 2)),
       managed_element = (\<lambda>h element_id. (WD_SUCCESS, 300)),
       IsAttachedToDom = (\<lambda>e. False),
       get_document = (\<lambda>e. Some 1),
       asString = (\<lambda>v. case v of JString t \<Rightarrow> t | _ \<Rightarrow> []) \<rparr>"




text \<open>A Script declared with two arguments, both added; one declared with a single
  number argument; one declared with no argument.\<close>

definition two_argument_script :: Script where
  "two_argument_script =
     AddArgument_string ''b'' (AddArgument_int 10 (Initialize (Some 1) ''function(){}'' 2))"

definition number_script :: Script where
  "number_script = AddArgument_int 42 (Initialize (Some 1) ''function(){}'' 1)"


text \<open>A Script declared with one argument that is still to be added; the Script that
  \<open>Execute\<close> leaves behind on the example host; an element reference; an array with a nested
  array; an object with two members.\<close>

definition one_slot_script :: Script where
  "one_slot_script = Initialize (Some 1) ''function(){}'' 1"


definition element_reference :: "(string \<times> json) list" where
  "element_reference = [(element_marker_property_name, JString ''abc'')]"





text \<open>A system in which the named event is free, the worker starts and signals
  readiness, every marshalling succeeds and the worker never completes; the same with a
  worker that does not signal readiness within the wait; one in which the named event
  is found at every attempt.\<close>

definition never_completing_system :: system where
  "never_completing_system =
     \<lparr> OpenEvent_exists = (\<lambda>k. False),
       CreateEvent_result = CREATED,
       thread_started = True,
       wait_for_ready = WAIT_OBJECT_0,
       worker_hwnd = 500,
       marshal_document = (\<lambda>d. Some 1),
       marshal_dispatch = (\<lambda>p. Some 2),
       is_execution_complete = (\<lambda>k. False),
       get_result = WD_SUCCESS \<rparr>"

definition never_ready_system :: system where
  "never_ready_system = never_completing_system\<lparr> wait_for_ready := WAIT_TIMEOUT \<rparr>"

definition event_held_system :: system where
  "event_held_system = never_completing_system\<lparr> OpenEvent_exists := (\<lambda>k. True) \<rparr>"

text \<open>A system in which \<open>_beginthreadex\<close> fails.\<close>

definition no_thread_system :: system where
  "no_thread_system = never_completing_system\<lparr> thread_started := False \<rparr>"

section \<open>The calling convention of Execute\<close>

lemma copy_loop_length: "length (copy_loop args index c) = length c"
  by (induction args index c rule: copy_loop.induct) (simp add: copy_loop.simps)

lemma drop_update_here:
  "n < length c \<Longrightarrow> drop n (c[n := x]) = x # drop (Suc n) c"
  by (simp add: Cons_nth_drop_Suc[symmetric] drop_update_swap)

lemma copy_loop_closed_form:
  "index \<le> length args \<Longrightarrow> length c = length args + 1 \<Longrightarrow>
   copy_loop args index c = rev (drop index args) @ drop (length args - index) c"
proof (induction args index c rule: copy_loop.induct)
  case (1 args index c)
  show ?case
  proof (cases "index < length args")
    case True
    define n where "n = length args - 1 - index"
    have suc: "Suc n = length args - index" and n_less: "n < length c"
      and n_eq: "n = length args - Suc index"
      using True "1.prems"(2) by (simp_all add: n_def)
    have here: "drop n (c[n := args ! index]) = args ! index # drop (length args - index) c"
      using drop_update_here[OF n_less] suc by simp
    have "copy_loop args index c = copy_loop args (Suc index) (c[n := args ! index])"
      using True by (subst copy_loop.simps) (simp add: n_def)
    also have "\<dots> = rev (drop (Suc index) args)
                    @ drop (length args - Suc index) (c[n := args ! index])"
      unfolding n_def using True "1.prems" by (intro "1.IH") simp_all
    also have "\<dots> = rev (drop (Suc index) args) @ args ! index # drop (length args - index) c"
      using here n_eq by simp
    also have "\<dots> = rev (drop index args) @ drop (length args - index) c"
      using True by (simp add: Cons_nth_drop_Suc[symmetric])
    finally show ?thesis .
  next
    case False
    then show ?thesis using "1.prems" by (subst copy_loop.simps) simp
  qed
qed

lemma call_parameters_closed_form:
  "call_parameters win args = rev args @ [V_DISPATCH win]"
proof -
  let ?c = "(replicate (length args + 1) V_EMPTY)[length args := V_DISPATCH win]"
  have len: "length ?c = length args + 1" by (simp only: length_list_update length_replicate)
  have "drop (length args) ?c = [V_DISPATCH win]"
    using drop_update_here[of "length args" "replicate (length args + 1) V_EMPTY" "V_DISPATCH win"]
    by (simp del: replicate_Suc replicate.simps)
  then have "copy_loop args 0 ?c = rev args @ [V_DISPATCH win]"
    using copy_loop_closed_form[of 0 args ?c] len by (simp del: replicate_Suc replicate.simps)
  then show ?thesis by (simp add: call_parameters_def Let_def)
qed

text \<open>
  Claim C1. When the steps before the call succeed (the host document is there, the
  source evaluates to the function object \<open>f\<close>, its member \<open>call\<close> is \<open>m\<close> and the parent
  window is \<open>win\<close>), \<open>Execute\<close> is determined by one call of \<open>Invoke\<close> on the array that
  holds the arguments in reverse order followed by the window: the array has one slot
  more than the argument list has entries, the argument added at position \<open>i\<close> sits in
  slot \<open>N - 1 - i\<close>, where \<open>N\<close> is the length of the argument list, and slot \<open>N\<close> holds
  the window.
\<close>

theorem Execute_reverse_order:
  assumes "script_engine_host s = Some doc"
      and "CreateAnonymousFunction env doc s = Some (V_DISPATCH f)"
      and "GetIDsOfNames env f ''call'' = Some m"
      and "get_parentWindow env 1 doc = Some win"
  shows "Execute env s
           = (case Invoke env f m (rev (argument_array s) @ [V_DISPATCH win]) of
                S_OK r \<Rightarrow>
                  (WD_SUCCESS, s\<lparr>result := r\<rparr>,
                   [(f, m, rev (argument_array s) @ [V_DISPATCH win])])
              | DISP_E_EXCEPTION bstrDescription \<Rightarrow>
                  (EUNEXPECTEDJSERROR,
                   s\<lparr>result := V_BSTR (case bstrDescription of
                                          Some d \<Rightarrow> c_str d
                                        | None \<Rightarrow> ''EUNEXPECTEDJSERROR'')\<rparr>,
                   [(f, m, rev (argument_array s) @ [V_DISPATCH win])])
              | OTHER_FAILURE \<Rightarrow>
                  (EUNEXPECTEDJSERROR, s\<lparr>result := V_BSTR ''''\<rparr>,
                   [(f, m, rev (argument_array s) @ [V_DISPATCH win])]))
       \<and> length (rev (argument_array s) @ [V_DISPATCH win]) = length (argument_array s) + 1
       \<and> (\<forall>i < length (argument_array s).
             (rev (argument_array s) @ [V_DISPATCH win]) ! (length (argument_array s) - 1 - i)
               = argument_array s ! i)
       \<and> (rev (argument_array s) @ [V_DISPATCH win]) ! length (argument_array s) = V_DISPATCH win"
proof -
  let ?n = "length (argument_array s)"
  let ?params = "rev (argument_array s) @ [V_DISPATCH win]"
  have e: "Execute env s
           = (case Invoke env f m ?params of
                S_OK r \<Rightarrow> (WD_SUCCESS, s\<lparr>result := r\<rparr>, [(f, m, ?params)])
              | DISP_E_EXCEPTION bstrDescription \<Rightarrow>
                  (EUNEXPECTEDJSERROR,
                   s\<lparr>result := V_BSTR (case bstrDescription of
                                          Some d \<Rightarrow> c_str d
                                        | None \<Rightarrow> ''EUNEXPECTEDJSERROR'')\<rparr>,
                   [(f, m, ?params)])
              | OTHER_FAILURE \<Rightarrow>
                  (EUNEXPECTEDJSERROR, s\<lparr>result := V_BSTR ''''\<rparr>, [(f, m, ?params)]))"
    using assms
    by (simp add: Execute_def Let_def call_parameters_closed_form split: invoke_result.splits)
  have at: "?params ! (?n - 1 - i) = argument_array s ! i" if "i < ?n" for i
  proof -
    have lt: "?n - 1 - i < ?n" and inv: "?n - Suc (?n - 1 - i) = i"
      using that by simp_all
    have "?params ! (?n - 1 - i) = rev (argument_array s) ! (?n - 1 - i)"
      using lt by (simp only: nth_append length_rev if_True)
    also have "\<dots> = argument_array s ! i"
      using rev_nth[OF lt] inv by simp
    finally show ?thesis .
  qed
  have last: "?params ! ?n = V_DISPATCH win"
    by (simp add: nth_append)
  have len: "length ?params = ?n + 1" by simp
  show ?thesis using e at last len by blast
qed

theorem Execute_reverse_order_witness:
  "script_engine_host two_argument_script = Some 1
   \<and> CreateAnonymousFunction example_host 1 two_argument_script = Some (V_DISPATCH 200)
   \<and> GetIDsOfNames example_host 200 ''call'' = Some 7
   \<and> get_parentWindow example_host 1 1 = Some 100
   \<and> argument_array two_argument_script = [V_I4 10, V_BSTR ''b'']
   \<and> Invoke example_host 200 7 [V_BSTR ''b'', V_I4 10, V_DISPATCH 100] = S_OK (V_I4 2)
   \<and> Execute example_host two_argument_script
       = (WD_SUCCESS, two_argument_script\<lparr>result := V_I4 2\<rparr>,
          [(200, 7, [V_BSTR ''b'', V_I4 10, V_DISPATCH 100])])"
proof -
  have a: "argument_array two_argument_script = [V_I4 10, V_BSTR ''b'']"
    by (simp add: two_argument_script_def AddArgument_string_def AddArgument_wstring_def
          ToWString_def c_str_def AddArgument_int_def AddArgument_VARIANT_def Initialize_def
          resize_def numeral_2_eq_2)
  have h: "script_engine_host two_argument_script = Some 1"
    by (simp add: two_argument_script_def AddArgument_string_def AddArgument_wstring_def
          AddArgument_int_def AddArgument_VARIANT_def Initialize_def)
  have c: "CreateAnonymousFunction example_host 1 two_argument_script = Some (V_DISPATCH 200)"
    by (simp add: CreateAnonymousFunction_def example_host_def Let_def)
  have g: "GetIDsOfNames example_host 200 ''call'' = Some 7"
    by (simp add: example_host_def)
  have w: "get_parentWindow example_host 1 1 = Some 100"
    by (simp add: example_host_def)
  have i: "Invoke example_host 200 7 [V_BSTR ''b'', V_I4 10, V_DISPATCH 100] = S_OK (V_I4 2)"
    by (simp add: example_host_def)
  show ?thesis
    using Execute_reverse_order[OF h c g w] a h c g w i by simp
qed

section \<open>Filling the argument list\<close>

lemma AddArgument_VARIANT_length:
  "length (argument_array (AddArgument_VARIANT v s)) = length (argument_array s)"
  by (simp add: AddArgument_VARIANT_def)

lemma AddArgument_VARIANT_fields:
  "argument_count (AddArgument_VARIANT v s) = argument_count s"
  "script_engine_host (AddArgument_VARIANT v s) = script_engine_host s"
  "source_code (AddArgument_VARIANT v s) = source_code s"
  "result (AddArgument_VARIANT v s) = result s"
  "current_arg_index (AddArgument_VARIANT v s) = current_arg_index s + 1"
  by (simp_all add: AddArgument_VARIANT_def)

lemma fold_AddArgument_VARIANT_Initialize:
  "fold AddArgument_VARIANT vs (Initialize d src n) =
     \<lparr> script_engine_host = d, source_code = src, argument_count = n,
       current_arg_index = length vs,
       argument_array = take n vs @ replicate (n - length vs) V_EMPTY,
       result = V_EMPTY,
       out_of_range = (n < length vs) \<rparr>"
proof (induction vs rule: rev_induct)
  case Nil
  show ?case by (simp add: Initialize_def resize_def)
next
  case (snoc v vs)
  have step: "fold AddArgument_VARIANT (vs @ [v]) (Initialize d src n)
              = AddArgument_VARIANT v (fold AddArgument_VARIANT vs (Initialize d src n))"
    by simp
  show ?case
  proof (cases "length vs < n")
    case True
    then obtain m where m: "n - length vs = Suc m" by (cases "n - length vs") auto
    with True have m': "n - Suc (length vs) = m" by simp
    show ?thesis unfolding step snoc using True
      by (simp add: AddArgument_VARIANT_def list_update_append m m')
  next
    case False
    then show ?thesis unfolding step snoc
      by (simp add: AddArgument_VARIANT_def)
  qed
qed

text \<open>
  Claim C2, as amended. \<open>AddArgument\<close> never grows or resizes the argument list: after any
  number of calls on a Script declared with \<open>n\<close> arguments the list still has length \<open>n\<close>,
  and the first \<open>n\<close> calls have filled the slots \<open>0 .. n - 1\<close> in the order of the calls.
  The calls are not checked against the declared count: a call beyond the \<open>n\<close>-th
  stores past the end of the vector, and the status-returning overload still answers
  \<open>WD_SUCCESS\<close> for a scalar.
\<close>

theorem AddArgument_never_resizes:
  "length (argument_array (fold AddArgument_VARIANT vs (Initialize d src n))) = n
   \<and> argument_array (fold AddArgument_VARIANT vs (Initialize d src n))
       = take n vs @ replicate (n - length vs) V_EMPTY
   \<and> current_arg_index (fold AddArgument_VARIANT vs (Initialize d src n)) = length vs
   \<and> out_of_range (fold AddArgument_VARIANT vs (Initialize d src n)) = (n < length vs)
   \<and> fst (AddArgument env h (JString v) s) = WD_SUCCESS"
  by (simp add: fold_AddArgument_VARIANT_Initialize AddArgument.simps)

text \<open>
  Claim C2 as stated fails. \<open>number_script\<close> is declared with one argument and holds it.
  One more \<open>AddArgument\<close> does not report an error: it answers \<open>WD_SUCCESS\<close>, after a store
  at index 1 of a vector of size 1.
\<close>

theorem AddArgument_beyond_count_counterexample:
  "fst (AddArgument example_host 0 (JInt 7) number_script) = WD_SUCCESS
   \<and> current_arg_index number_script = argument_count number_script
   \<and> out_of_range (snd (AddArgument example_host 0 (JInt 7) number_script))
   \<and> \<not> out_of_range number_script"
  by (simp add: AddArgument.simps number_script_def AddArgument_int_def AddArgument_VARIANT_def
        Initialize_def resize_def)

lemma AddArgument_length:
  "length (argument_array (snd (AddArgument env h arg s))) = length (argument_array s)"
  by (cases arg)
     (auto simp: AddArgument.simps WalkArray.simps WalkObject.simps Let_def
         AddArgument_string_def AddArgument_wstring_def AddArgument_int_def
         AddArgument_double_def AddArgument_bool_def AddNullArgument_def
         AddArgument_IHTMLElement_def
         AddArgument_VARIANT_length AddArgument_VARIANT_fields
       split: prod.splits if_splits)

lemma AddArgument_argument_count:
  "argument_count (snd (AddArgument env h arg s)) = argument_count s"
  by (cases arg)
     (auto simp: AddArgument.simps WalkArray.simps WalkObject.simps Let_def
         AddArgument_string_def AddArgument_wstring_def AddArgument_int_def
         AddArgument_double_def AddArgument_bool_def AddNullArgument_def
         AddArgument_IHTMLElement_def
         AddArgument_VARIANT_length AddArgument_VARIANT_fields
       split: prod.splits if_splits)

lemma AddArguments_loop_length:
  "length (argument_array (snd (AddArguments_loop env h args s))) = length (argument_array s)"
proof (induction args arbitrary: s)
  case Nil
  show ?case by simp
next
  case (Cons a args)
  show ?case
    using AddArgument_length[of env h a s] Cons.IH[of "snd (AddArgument env h a s)"]
    by (auto split: prod.splits)
qed

lemma AddArguments_loop_argument_count:
  "argument_count (snd (AddArguments_loop env h args s)) = argument_count s"
proof (induction args arbitrary: s)
  case Nil
  show ?case by simp
next
  case (Cons a args)
  show ?case
    using AddArgument_argument_count[of env h a s] Cons.IH[of "snd (AddArgument env h a s)"]
    by (auto split: prod.splits)
qed

text \<open>
  Claim C10. \<open>AddArguments\<close> leaves the argument vector with exactly as many slots as the
  JSON array has elements, whatever the Script was declared with, and the declared count
  itself is not changed.
\<close>

theorem AddArguments_resizes_to_json_length:
  "length (argument_array (snd (AddArguments env h arguments s))) = length arguments
   \<and> argument_count (snd (AddArguments env h arguments s)) = argument_count s"
  by (simp add: AddArguments_def AddArguments_loop_length AddArguments_loop_argument_count
        resize_def)

section \<open>Element references\<close>

text \<open>
  Claim C4. For an object carrying the element marker whose element the registry
  resolves: if the element is not attached to a document, or its document is not the one
  of the Script's host, \<open>AddArgument\<close> answers \<open>EOBSOLETEELEMENT\<close> and the Script, argument
  list included, is as before the call.
\<close>

theorem obsolete_element_reference:
  assumes "isMember members element_marker_property_name"
      and "managed_element env h (asString env (member members element_marker_property_name))
             = (WD_SUCCESS, element)"
      and "\<not> IsAttachedToDom env element \<or> get_document env element \<noteq> script_engine_host s"
  shows "AddArgument env h (JObject members) s = (EOBSOLETEELEMENT, s)"
  using assms by (auto simp: AddArgument.simps Let_def)

theorem obsolete_element_reference_witness:
  "isMember element_reference element_marker_property_name
   \<and> managed_element example_host 0
        (asString example_host (member element_reference element_marker_property_name))
       = (WD_SUCCESS, 300)
   \<and> \<not> IsAttachedToDom example_host 300
   \<and> AddArgument example_host 0 (JObject element_reference) one_slot_script
       = (EOBSOLETEELEMENT, one_slot_script)"
proof -
  have a: "isMember element_reference element_marker_property_name"
    by (simp add: isMember_def element_reference_def)
  have b: "managed_element example_host 0
             (asString example_host (member element_reference element_marker_property_name))
           = (WD_SUCCESS, 300)"
    by (simp add: example_host_def)
  have c: "\<not> IsAttachedToDom example_host 300"
    by (simp add: example_host_def)
  from c have c': "\<not> IsAttachedToDom example_host 300
        \<or> get_document example_host 300 \<noteq> script_engine_host one_slot_script" by simp
  show ?thesis
    using obsolete_element_reference[OF a b c'] a b c by simp
qed

section \<open>A source that does not evaluate to a function\<close>




section \<open>The composite walks\<close>




















section \<open>The asynchronous coordinator\<close>

lemma blocked_at_most_simps:
  "blocked_at_most [] = 0"
  "blocked_at_most (c # cs) = at_most_ms c + blocked_at_most cs"
  "blocked_at_most (xs @ ys) = blocked_at_most xs + blocked_at_most ys"
  by (simp_all add: blocked_at_most_def)

lemma blocked_at_least_simps:
  "blocked_at_least [] = 0"
  "blocked_at_least (c # cs) = at_least_ms c + blocked_at_least cs"
  "blocked_at_least (xs @ ys) = blocked_at_least xs + blocked_at_least ys"
  by (simp_all add: blocked_at_least_def)

lemma open_event_loop_blocked:
  "blocked_at_most (snd (open_event_loop sys k e rc)) \<le> 50 * nat (rc - 1)"
proof (induction sys k e rc rule: open_event_loop.induct)
  case (1 sys k e rc)
  show ?case
  proof (cases "e \<and> rc - 1 > 0")
    case True
    then show ?thesis
      using "1.IH"[OF True]
      by (subst open_event_loop.simps) (auto simp: blocked_at_most_simps split: prod.splits)
  next
    case False
    then show ?thesis by (subst open_event_loop.simps) (auto simp: blocked_at_most_simps)
  qed
qed

lemma open_event_loop_calls:
  "set (snd (open_event_loop sys k e rc)) \<subseteq> {CloseHandle, Sleep 50, OpenEvent}"
proof (induction sys k e rc rule: open_event_loop.induct)
  case (1 sys k e rc)
  show ?case
  proof (cases "e \<and> rc - 1 > 0")
    case True
    then show ?thesis
      using "1.IH"[OF True]
      by (subst open_event_loop.simps) (auto split: prod.splits)
  next
    case False
    then show ?thesis by (subst open_event_loop.simps) auto
  qed
qed

lemma open_event_loop_held:
  "e \<Longrightarrow> (\<forall>j. k \<le> j \<and> j < k + nat (rc - 1) \<longrightarrow> OpenEvent_exists sys j) \<Longrightarrow>
   open_event_loop sys k e rc
     = (True, concat (replicate (nat (rc - 1)) [CloseHandle, Sleep 50, OpenEvent]))"
proof (induction sys k e rc rule: open_event_loop.induct)
  case (1 sys k e rc)
  show ?case
  proof (cases "rc - 1 > 0")
    case True
    then obtain m where m: "nat (rc - 1) = Suc m" "nat (rc - 1 - 1) = m"
      by (cases "nat (rc - 1)") auto
    have here: "OpenEvent_exists sys k"
      using "1.prems"(2) m by simp
    have later: "\<forall>j. Suc k \<le> j \<and> j < Suc k + nat (rc - 1 - 1) \<longrightarrow> OpenEvent_exists sys j"
      using "1.prems"(2) m by simp
    from True "1.prems"(1) have c: "e \<and> rc - 1 > 0" by simp
    show ?thesis
      using "1.IH"[OF c here later] True "1.prems"(1) m
      by (subst open_event_loop.simps) simp
  next
    case False
    then show ?thesis using "1.prems"(1) by (subst open_event_loop.simps) simp
  qed
qed

lemma start_executor_Inl:
  assumes "start_executor sys s = Inl (st, s', calls)"
  shows "st = EUNEXPECTEDJSERROR \<and> blocked_at_most calls \<le> 49 * 50 + 5000 \<and> \<not> list_ex is_handoff calls
       \<and> (beginthreadex \<in> set calls \<longrightarrow> s' = s\<lparr>result := V_BSTR thread_failed_description\<rparr>)"
proof -
  obtain e retries where l: "open_event_loop sys 1 (OpenEvent_exists sys 0) 50 = (e, retries)"
    by (cases "open_event_loop sys 1 (OpenEvent_exists sys 0) 50")
  have b: "blocked_at_most retries \<le> 49 * 50"
    using open_event_loop_blocked[of sys 1 "OpenEvent_exists sys 0" 50] l by simp
  have c: "set retries \<subseteq> {CloseHandle, Sleep 50, OpenEvent}"
    using open_event_loop_calls[of sys 1 "OpenEvent_exists sys 0" 50] l by simp
  then have h: "\<not> list_ex is_handoff retries" and t: "beginthreadex \<notin> set retries"
    by (auto simp: list_ex_iff)
  show ?thesis
    using assms b h t l
    by (cases "wait_for_ready sys")
       (auto simp: start_executor_def Let_def blocked_at_most_simps
          split: if_splits create_event_result.splits)
qed

lemma start_executor_Inr:
  assumes "start_executor sys s = Inr (hdl, calls)"
  shows "hdl = worker_hwnd sys \<and> thread_started sys \<and> blocked_at_most calls \<le> 49 * 50 + 5000
       \<and> \<not> list_ex is_handoff calls"
proof -
  obtain e retries where l: "open_event_loop sys 1 (OpenEvent_exists sys 0) 50 = (e, retries)"
    by (cases "open_event_loop sys 1 (OpenEvent_exists sys 0) 50")
  have b: "blocked_at_most retries \<le> 49 * 50"
    using open_event_loop_blocked[of sys 1 "OpenEvent_exists sys 0" 50] l by simp
  have c: "set retries \<subseteq> {CloseHandle, Sleep 50, OpenEvent}"
    using open_event_loop_calls[of sys 1 "OpenEvent_exists sys 0" 50] l by simp
  then have h: "\<not> list_ex is_handoff retries"
    by (auto simp: list_ex_iff)
  show ?thesis
    using assms b h l
    by (cases "wait_for_ready sys")
       (auto simp: start_executor_def Let_def blocked_at_most_simps
          split: if_splits create_event_result.splits)
qed

lemma start_executor_held:
  assumes "\<forall>k < 50. OpenEvent_exists sys k"
  shows "start_executor sys s
     = Inl (EUNEXPECTEDJSERROR, s\<lparr>result := V_BSTR event_exists_description\<rparr>,
            [OpenEvent] @ concat (replicate 49 [CloseHandle, Sleep 50, OpenEvent]) @ [CloseHandle])"
proof -
  have e: "OpenEvent_exists sys 0" using assms by simp
  have "\<forall>j. 1 \<le> j \<and> j < 1 + nat (50 - 1) \<longrightarrow> OpenEvent_exists sys j"
    using assms by simp
  from open_event_loop_held[OF e this]
  show ?thesis by (simp add: start_executor_def)
qed

lemma poll_loop_blocked:
  "blocked_at_most (snd (poll_loop sys h k f rc)) \<le> 10 * nat (rc - 1)"
proof (induction sys h k f rc rule: poll_loop.induct)
  case (1 sys h k f rc)
  show ?case
  proof (cases "\<not> f \<and> rc - 1 > 0")
    case True
    then show ?thesis
      using "1.IH"[OF True]
      by (subst poll_loop.simps) (auto simp: blocked_at_most_simps split: prod.splits)
  next
    case False
    then show ?thesis by (subst poll_loop.simps) (auto simp: blocked_at_most_simps)
  qed
qed

lemma poll_loop_calls:
  "set (snd (poll_loop sys h k f rc))
     \<subseteq> {Sleep 10, SendMessage h WD_ASYNC_SCRIPT_IS_EXECUTION_COMPLETE W_NULL (L_VALUE 0)}"
proof (induction sys h k f rc rule: poll_loop.induct)
  case (1 sys h k f rc)
  show ?case
  proof (cases "\<not> f \<and> rc - 1 > 0")
    case True
    then show ?thesis
      using "1.IH"[OF True]
      by (subst poll_loop.simps) (auto split: prod.splits)
  next
    case False
    then show ?thesis by (subst poll_loop.simps) auto
  qed
qed

lemma poll_loop_never_complete:
  "\<not> f \<Longrightarrow> (\<forall>j. k \<le> j \<and> j < k + nat (rc - 1) \<longrightarrow> \<not> is_execution_complete sys j) \<Longrightarrow>
   \<not> fst (poll_loop sys h k f rc)"
proof (induction sys h k f rc rule: poll_loop.induct)
  case (1 sys h k f rc)
  show ?case
  proof (cases "rc - 1 > 0")
    case True
    then obtain m where m: "nat (rc - 1) = Suc m" "nat (rc - 1 - 1) = m"
      by (cases "nat (rc - 1)") auto
    have here: "\<not> is_execution_complete sys k"
      using "1.prems"(2) m by simp
    have later: "\<forall>j. Suc k \<le> j \<and> j < Suc k + nat (rc - 1 - 1) \<longrightarrow> \<not> is_execution_complete sys j"
      using "1.prems"(2) m by simp
    from True "1.prems"(1) have c: "\<not> f \<and> rc - 1 > 0" by simp
    show ?thesis
      using "1.IH"[OF c here later] True "1.prems"(1)
      by (subst poll_loop.simps) (auto split: prod.splits)
  next
    case False
    then show ?thesis using "1.prems"(1) by (subst poll_loop.simps) simp
  qed
qed

lemma ExecuteAsync_arguments_blocked:
  "blocked_at_most (case_sum id id (ExecuteAsync_arguments sys h args)) = 0"
  by (induction args)
     (auto simp: blocked_at_most_simps split: variant.splits option.splits sum.splits)

lemma ExecuteAsync_arguments_no_post:
  "PostMessage w m wp lp \<notin> set (case_sum id id (ExecuteAsync_arguments sys h args))"
  by (induction args) (auto split: variant.splits option.splits sum.splits)

lemma poll_bound: "int (10 * nat (c_div T 10 - 1)) \<le> max 0 (T - 10)"
proof (cases "T \<ge> 0")
  case True
  then have "c_div T 10 = T div 10" by (simp add: c_div_def sgn_if)
  then show ?thesis by auto
next
  case False
  then have "c_div T 10 \<le> 0" by (simp add: c_div_def sgn_if)
  then show ?thesis by simp
qed


lemma not_handoff_no_post:
  "\<not> list_ex is_handoff calls \<Longrightarrow> PostMessage w m wp lp \<notin> set calls"
  by (auto simp: list_ex_iff)

lemma ExecuteAsync_blocked:
  "blocked_at_most (snd (snd (ExecuteAsync sys s T))) \<le> 49 * 50 + 5000 + 10 * nat (c_div T 10 - 1)"
proof (cases "start_executor sys s")
  case (Inl early)
  then show ?thesis
    using start_executor_Inl[of sys s "fst early" "fst (snd early)" "snd (snd early)"]
    by (simp add: ExecuteAsync_def)
next
  case (Inr started)
  obtain hdl calls where st: "started = (hdl, calls)" by (cases started)
  have b: "blocked_at_most calls \<le> 49 * 50 + 5000"
    using start_executor_Inr[of sys s hdl calls] Inr st by simp
  have a: "blocked_at_most sent = 0"
    if "ExecuteAsync_arguments sys hdl (argument_array s) = Inl sent
        \<or> ExecuteAsync_arguments sys hdl (argument_array s) = Inr sent" for sent
    using ExecuteAsync_arguments_blocked[of sys hdl "argument_array s"] that by auto
  have p: "blocked_at_most (snd (poll_loop sys hdl (Suc 0) (is_execution_complete sys 0) (c_div T 10)))
             \<le> 10 * nat (c_div T 10 - 1)"
    by (rule poll_loop_blocked)
  show ?thesis
    using b a p
    by (auto simp: ExecuteAsync_def Inr st Let_def blocked_at_most_simps
          split: option.splits sum.splits prod.splits)
qed

lemma ExecuteAsync_detach:
  assumes never: "\<forall>k < nat (max 1 (c_div T 10)). \<not> is_execution_complete sys k"
      and posted: "PostMessage h WD_ASYNC_SCRIPT_EXECUTE W_NULL (L_VALUE 0)
                     \<in> set (snd (snd (ExecuteAsync sys s T)))"
  shows "fst (ExecuteAsync sys s T) = WD_SUCCESS
       \<and> fst (snd (ExecuteAsync sys s T)) = s
       \<and> last (snd (snd (ExecuteAsync sys s T)))
           = SendMessage h WD_ASYNC_SCRIPT_DETACH_LISTENTER W_NULL (L_VALUE 0)"
proof (cases "start_executor sys s")
  case (Inl early)
  then have "\<not> list_ex is_handoff (snd (snd (ExecuteAsync sys s T)))"
    using start_executor_Inl[of sys s "fst early" "fst (snd early)" "snd (snd early)"]
    by (simp add: ExecuteAsync_def)
  with posted show ?thesis by (auto simp: list_ex_iff)
next
  case (Inr started)
  obtain hdl calls where st: "started = (hdl, calls)" by (cases started)
  have np: "PostMessage w m wp lp \<notin> set calls" for w m wp lp
    using start_executor_Inr[of sys s hdl calls] Inr st by (auto simp: list_ex_iff)
  have na: "PostMessage w m wp lp \<notin> set sent"
    if "ExecuteAsync_arguments sys hdl (argument_array s) = Inl sent
        \<or> ExecuteAsync_arguments sys hdl (argument_array s) = Inr sent" for sent w m wp lp
    using ExecuteAsync_arguments_no_post[of w m wp lp sys hdl "argument_array s"] that by auto
  have f0: "\<not> is_execution_complete sys 0"
    using never by simp
  have "\<forall>j. 1 \<le> j \<and> j < 1 + nat (c_div T 10 - 1) \<longrightarrow> \<not> is_execution_complete sys j"
    using never by auto
  from poll_loop_never_complete[OF f0 this]
  have nf: "\<not> fst (poll_loop sys hdl 1 (is_execution_complete sys 0) (c_div T 10))" .
  have pc: "PostMessage w m wp lp \<notin> set polls"
    if "poll_loop sys hdl 1 (is_execution_complete sys 0) (c_div T 10) = (f, polls)"
    for f polls w m wp lp
    using poll_loop_calls[of sys hdl 1 "is_execution_complete sys 0" "c_div T 10"] that by auto
  show ?thesis
    using posted np na nf pc
    by (auto simp: ExecuteAsync_def Inr st Let_def split: option.splits sum.splits prod.splits)
qed



lemma number_script_fields:
  "argument_array number_script = [V_I4 42]" "script_engine_host number_script = Some 1"
  by (simp_all add: number_script_def AddArgument_int_def AddArgument_VARIANT_def
        Initialize_def resize_def)

lemma start_executor_ready:
  "\<not> OpenEvent_exists sys 0 \<Longrightarrow> CreateEvent_result sys = CREATED \<Longrightarrow> thread_started sys \<Longrightarrow>
   start_executor sys s
     = Inr (worker_hwnd sys,
            [OpenEvent, CreateEvent, beginthreadex,
             WaitForSingleObject 5000 (wait_for_ready sys), CloseHandle])"
  by (simp add: start_executor_def open_event_loop.simps)

text \<open>
  Claim C3, as amended. The sleeps and waits of \<open>ExecuteAsync(T)\<close> add up to at most
  49 retries of 50 ms for the named event, 5000 ms of waiting for the worker to be
  ready, and \<open>max 0 (T - 10)\<close> ms in the polling loop. When no completion query is
  answered with yes and the execute request has been posted to the worker window \<open>h\<close>,
  the last call is the detach notification to \<open>h\<close> and the status code is
  \<open>WD_SUCCESS\<close>.
\<close>

theorem ExecuteAsync_bounded_blocking:
  "int (blocked_at_most (snd (snd (ExecuteAsync sys s T)))) \<le> 49 * 50 + 5000 + max 0 (T - 10)
   \<and> ((\<forall>k < nat (max 1 (c_div T 10)). \<not> is_execution_complete sys k)
        \<and> PostMessage h WD_ASYNC_SCRIPT_EXECUTE W_NULL (L_VALUE 0)
             \<in> set (snd (snd (ExecuteAsync sys s T)))
       \<longrightarrow> fst (ExecuteAsync sys s T) = WD_SUCCESS
           \<and> last (snd (snd (ExecuteAsync sys s T)))
               = SendMessage h WD_ASYNC_SCRIPT_DETACH_LISTENTER W_NULL (L_VALUE 0))"
proof
  have "int (blocked_at_most (snd (snd (ExecuteAsync sys s T))))
          \<le> int (49 * 50 + 5000 + 10 * nat (c_div T 10 - 1))"
    using ExecuteAsync_blocked[of sys s T] by (simp only: of_nat_le_iff)
  also have "\<dots> = 49 * 50 + 5000 + int (10 * nat (c_div T 10 - 1))"
    by simp
  also have "\<dots> \<le> 49 * 50 + 5000 + max 0 (T - 10)"
    using poll_bound[of T] by simp
  finally show "int (blocked_at_most (snd (snd (ExecuteAsync sys s T)))) \<le> 49 * 50 + 5000 + max 0 (T - 10)" .
next
  show "(\<forall>k < nat (max 1 (c_div T 10)). \<not> is_execution_complete sys k)
        \<and> PostMessage h WD_ASYNC_SCRIPT_EXECUTE W_NULL (L_VALUE 0)
             \<in> set (snd (snd (ExecuteAsync sys s T)))
       \<longrightarrow> fst (ExecuteAsync sys s T) = WD_SUCCESS
           \<and> last (snd (snd (ExecuteAsync sys s T)))
               = SendMessage h WD_ASYNC_SCRIPT_DETACH_LISTENTER W_NULL (L_VALUE 0)"
    using ExecuteAsync_detach[of T sys h s] by blast
qed

theorem ExecuteAsync_bounded_blocking_witness:
  "is_execution_complete never_completing_system = (\<lambda>k. False)
   \<and> PostMessage 500 WD_ASYNC_SCRIPT_EXECUTE W_NULL (L_VALUE 0)
        \<in> set (snd (snd (ExecuteAsync never_completing_system number_script 30)))
   \<and> fst (ExecuteAsync never_completing_system number_script 30) = WD_SUCCESS
   \<and> last (snd (snd (ExecuteAsync never_completing_system number_script 30)))
       = SendMessage 500 WD_ASYNC_SCRIPT_DETACH_LISTENTER W_NULL (L_VALUE 0)
   \<and> blocked_at_most (snd (snd (ExecuteAsync never_completing_system number_script 30))) = 5020"
proof -
  have n: "\<forall>k < nat (max 1 (c_div 30 10)). \<not> is_execution_complete never_completing_system k"
    by (simp add: never_completing_system_def)
  have e: "snd (snd (ExecuteAsync never_completing_system number_script 30))
     = [OpenEvent, CreateEvent, beginthreadex, WaitForSingleObject 5000 WAIT_OBJECT_0, CloseHandle,
        CoMarshalInterThreadInterfaceInStream (Some 1),
        SendMessage 500 WD_ASYNC_SCRIPT_SET_DOCUMENT W_NULL (L_STREAM 1),
        SendMessage 500 WD_ASYNC_SCRIPT_SET_ARGUMENT (W_VARTYPE VT_I4) (L_VALUE 0),
        PostMessage 500 WD_ASYNC_SCRIPT_EXECUTE W_NULL (L_VALUE 0),
        SendMessage 500 WD_ASYNC_SCRIPT_IS_EXECUTION_COMPLETE W_NULL (L_VALUE 0),
        Sleep 10,
        SendMessage 500 WD_ASYNC_SCRIPT_IS_EXECUTION_COMPLETE W_NULL (L_VALUE 0),
        Sleep 10,
        SendMessage 500 WD_ASYNC_SCRIPT_IS_EXECUTION_COMPLETE W_NULL (L_VALUE 0),
        SendMessage 500 WD_ASYNC_SCRIPT_DETACH_LISTENTER W_NULL (L_VALUE 0)]"
    by (simp add: ExecuteAsync_def start_executor_ready never_completing_system_def
          number_script_fields poll_loop.simps c_div_def Let_def)
  have p: "PostMessage 500 WD_ASYNC_SCRIPT_EXECUTE W_NULL (L_VALUE 0)
        \<in> set (snd (snd (ExecuteAsync never_completing_system number_script 30)))"
    by (simp add: e)
  have b: "blocked_at_most (snd (snd (ExecuteAsync never_completing_system number_script 30))) = 5020"
    by (simp add: e blocked_at_most_simps)
  have c: "is_execution_complete never_completing_system = (\<lambda>k. False)"
    by (simp add: never_completing_system_def)
  show ?thesis
    using ExecuteAsync_bounded_blocking[of never_completing_system number_script 30 500] n p b c
    by blast
qed

text \<open>
  Claim C3 as stated fails: with a worker that does not signal readiness, the wait of
  5000 ms runs to its end before the polling starts, so \<open>ExecuteAsync(200)\<close> keeps the
  caller for at least 5190 ms, which is more than 200 ms plus one poll interval of
  10 ms.
\<close>

theorem ExecuteAsync_time_bound_counterexample:
  "wait_for_ready never_ready_system = WAIT_TIMEOUT
   \<and> blocked_at_least (snd (snd (ExecuteAsync never_ready_system number_script 200))) = 5190
   \<and> \<not> int (blocked_at_least (snd (snd (ExecuteAsync never_ready_system number_script 200)))) \<le> 200 + 10"
proof -
  have "snd (snd (ExecuteAsync never_ready_system number_script 200))
     = [OpenEvent, CreateEvent, beginthreadex, WaitForSingleObject 5000 WAIT_TIMEOUT, CloseHandle,
        CoMarshalInterThreadInterfaceInStream (Some 1),
        SendMessage 500 WD_ASYNC_SCRIPT_SET_DOCUMENT W_NULL (L_STREAM 1),
        SendMessage 500 WD_ASYNC_SCRIPT_SET_ARGUMENT (W_VARTYPE VT_I4) (L_VALUE 0),
        PostMessage 500 WD_ASYNC_SCRIPT_EXECUTE W_NULL (L_VALUE 0),
        SendMessage 500 WD_ASYNC_SCRIPT_IS_EXECUTION_COMPLETE W_NULL (L_VALUE 0)]
       @ concat (replicate 19 [Sleep 10,
            SendMessage 500 WD_ASYNC_SCRIPT_IS_EXECUTION_COMPLETE W_NULL (L_VALUE 0)])
       @ [SendMessage 500 WD_ASYNC_SCRIPT_DETACH_LISTENTER W_NULL (L_VALUE 0)]"
    by (simp add: ExecuteAsync_def start_executor_ready never_ready_system_def
          never_completing_system_def number_script_fields poll_loop.simps c_div_def Let_def
          eval_nat_numeral)
  then show ?thesis
    by (simp add: never_ready_system_def never_completing_system_def eval_nat_numeral
          blocked_at_least_simps)
qed

lemma open_event_loop_wait:
  "open_event_loop (sys\<lparr>wait_for_ready := w\<rparr>) k e rc = open_event_loop sys k e rc"
proof (induction sys k e rc rule: open_event_loop.induct)
  case (1 sys k e rc)
  show ?case
  proof (cases "e \<and> rc - 1 > 0")
    case True
    then show ?thesis
      using "1.IH"[OF True]
      by (subst open_event_loop.simps, subst (2) open_event_loop.simps) simp
  next
    case False
    then show ?thesis
      by (subst open_event_loop.simps, subst (2) open_event_loop.simps) auto
  qed
qed

lemma poll_loop_wait:
  "poll_loop (sys\<lparr>wait_for_ready := w\<rparr>) h k f rc = poll_loop sys h k f rc"
proof (induction sys h k f rc rule: poll_loop.induct)
  case (1 sys h k f rc)
  show ?case
  proof (cases "\<not> f \<and> rc - 1 > 0")
    case True
    then show ?thesis
      using "1.IH"[OF True]
      by (subst poll_loop.simps, subst (2) poll_loop.simps) simp
  next
    case False
    then show ?thesis
      by (subst poll_loop.simps, subst (2) poll_loop.simps) auto
  qed
qed

lemma ExecuteAsync_arguments_wait:
  "ExecuteAsync_arguments (sys\<lparr>wait_for_ready := w\<rparr>) h args = ExecuteAsync_arguments sys h args"
  by (induction args) (auto split: variant.splits option.splits sum.splits)

lemma ExecuteAsync_wait:
  "fst (ExecuteAsync (sys\<lparr>wait_for_ready := w\<rparr>) s T) = fst (ExecuteAsync sys s T)
   \<and> fst (snd (ExecuteAsync (sys\<lparr>wait_for_ready := w\<rparr>) s T)) = fst (snd (ExecuteAsync sys s T))"
  by (auto simp: ExecuteAsync_def start_executor_def Let_def open_event_loop_wait
        poll_loop_wait ExecuteAsync_arguments_wait
        split: option.splits sum.splits prod.splits create_event_result.splits)

lemma ExecuteAsync_no_thread:
  assumes "\<not> thread_started sys"
  shows "fst (ExecuteAsync sys s T) = EUNEXPECTEDJSERROR
       \<and> \<not> list_ex is_handoff (snd (snd (ExecuteAsync sys s T)))
       \<and> (beginthreadex \<in> set (snd (snd (ExecuteAsync sys s T)))
            \<longrightarrow> fst (snd (ExecuteAsync sys s T)) = s\<lparr>result := V_BSTR thread_failed_description\<rparr>)"
proof (cases "start_executor sys s")
  case (Inl early)
  then show ?thesis
    using start_executor_Inl[of sys s "fst early" "fst (snd early)" "snd (snd early)"]
    by (simp add: ExecuteAsync_def)
next
  case (Inr started)
  then show ?thesis
    using start_executor_Inr[of sys s "fst started" "snd started"] assms by simp
qed

text \<open>
  Claim C7, as amended. When the worker thread cannot be started, \<open>ExecuteAsync\<close> answers
  \<open>EUNEXPECTEDJSERROR\<close> without any marshalling or message to a worker, and, when it got
  as far as starting the thread, with the thread-creation error text as the result. The
  outcome of the readiness wait does not change the status code or the Script: it is
  only logged.
\<close>

theorem thread_start_failure_aborts:
  "(\<not> thread_started sys \<longrightarrow>
      fst (ExecuteAsync sys s T) = EUNEXPECTEDJSERROR
      \<and> \<not> list_ex is_handoff (snd (snd (ExecuteAsync sys s T)))
      \<and> (beginthreadex \<in> set (snd (snd (ExecuteAsync sys s T)))
           \<longrightarrow> fst (snd (ExecuteAsync sys s T)) = s\<lparr>result := V_BSTR thread_failed_description\<rparr>))
   \<and> fst (ExecuteAsync (sys\<lparr>wait_for_ready := w\<rparr>) s T) = fst (ExecuteAsync sys s T)
   \<and> fst (snd (ExecuteAsync (sys\<lparr>wait_for_ready := w\<rparr>) s T)) = fst (snd (ExecuteAsync sys s T))"
  using ExecuteAsync_no_thread[of sys s T] ExecuteAsync_wait[of w sys s T] by blast

theorem thread_start_failure_aborts_witness:
  "\<not> thread_started no_thread_system
   \<and> ExecuteAsync no_thread_system number_script 30
       = (EUNEXPECTEDJSERROR, number_script\<lparr>result := V_BSTR thread_failed_description\<rparr>,
          [OpenEvent, CreateEvent, beginthreadex, WaitForSingleObject 5000 WAIT_OBJECT_0,
           CloseHandle])
   \<and> \<not> list_ex is_handoff (snd (snd (ExecuteAsync no_thread_system number_script 30)))"
proof -
  have t: "\<not> thread_started no_thread_system"
    by (simp add: no_thread_system_def never_completing_system_def)
  have e: "ExecuteAsync no_thread_system number_script 30
       = (EUNEXPECTEDJSERROR, number_script\<lparr>result := V_BSTR thread_failed_description\<rparr>,
          [OpenEvent, CreateEvent, beginthreadex, WaitForSingleObject 5000 WAIT_OBJECT_0,
           CloseHandle])"
    by (simp add: ExecuteAsync_def start_executor_def open_event_loop.simps no_thread_system_def
          never_completing_system_def)
  show ?thesis
    using thread_start_failure_aborts[of no_thread_system number_script 30] t e by blast
qed

text \<open>
  Claim C7 as stated fails for a worker that starts and does not signal readiness within
  the 5000 ms: \<open>ExecuteAsync\<close> goes on to hand the document and the arguments to the
  worker window and answers \<open>WD_SUCCESS\<close>.
\<close>

theorem readiness_timeout_counterexample:
  "thread_started never_ready_system
   \<and> wait_for_ready never_ready_system = WAIT_TIMEOUT
   \<and> fst (ExecuteAsync never_ready_system number_script 0) = WD_SUCCESS
   \<and> list_ex is_handoff (snd (snd (ExecuteAsync never_ready_system number_script 0)))
   \<and> SendMessage 500 WD_ASYNC_SCRIPT_SET_DOCUMENT W_NULL (L_STREAM 1)
        \<in> set (snd (snd (ExecuteAsync never_ready_system number_script 0)))"
proof -
  have "ExecuteAsync never_ready_system number_script 0
     = (WD_SUCCESS, number_script,
        [OpenEvent, CreateEvent, beginthreadex, WaitForSingleObject 5000 WAIT_TIMEOUT, CloseHandle,
         CoMarshalInterThreadInterfaceInStream (Some 1),
         SendMessage 500 WD_ASYNC_SCRIPT_SET_DOCUMENT W_NULL (L_STREAM 1),
         SendMessage 500 WD_ASYNC_SCRIPT_SET_ARGUMENT (W_VARTYPE VT_I4) (L_VALUE 0),
         PostMessage 500 WD_ASYNC_SCRIPT_EXECUTE W_NULL (L_VALUE 0),
         SendMessage 500 WD_ASYNC_SCRIPT_IS_EXECUTION_COMPLETE W_NULL (L_VALUE 0),
         SendMessage 500 WD_ASYNC_SCRIPT_DETACH_LISTENTER W_NULL (L_VALUE 0)])"
    by (simp add: ExecuteAsync_def start_executor_ready never_ready_system_def
          never_completing_system_def number_script_fields poll_loop.simps c_div_def Let_def)
  then show ?thesis
    by (simp add: never_ready_system_def never_completing_system_def)
qed

text \<open>
  Claim C8. When the named event is found at the first attempt and at each of the 49
  retries, \<open>ExecuteAsync\<close> answers \<open>EUNEXPECTEDJSERROR\<close> with the description of a
  creation already in progress as the result (the specification's
  \<open>ConcurrentAsyncInProgress\<close>), having only opened and closed the event and slept
  50 ms between the attempts: no worker thread is started.
\<close>

theorem ExecuteAsync_event_held:
  assumes "\<forall>k < 50. OpenEvent_exists sys k"
  shows "ExecuteAsync sys s T
     = (EUNEXPECTEDJSERROR, s\<lparr>result := V_BSTR event_exists_description\<rparr>,
        [OpenEvent] @ concat (replicate 49 [CloseHandle, Sleep 50, OpenEvent]) @ [CloseHandle])
   \<and> beginthreadex \<notin> set (snd (snd (ExecuteAsync sys s T)))"
proof -
  have e: "ExecuteAsync sys s T
     = (EUNEXPECTEDJSERROR, s\<lparr>result := V_BSTR event_exists_description\<rparr>,
        [OpenEvent] @ concat (replicate 49 [CloseHandle, Sleep 50, OpenEvent]) @ [CloseHandle])"
    using start_executor_held[OF assms, of s] by (simp add: ExecuteAsync_def)
  have "beginthreadex \<notin> set (snd (snd (ExecuteAsync sys s T)))"
    unfolding e by auto
  with e show ?thesis by simp
qed

theorem ExecuteAsync_event_held_witness:
  "OpenEvent_exists event_held_system = (\<lambda>k. True)
   \<and> fst (ExecuteAsync event_held_system number_script 200) = EUNEXPECTEDJSERROR
   \<and> result (fst (snd (ExecuteAsync event_held_system number_script 200)))
       = V_BSTR event_exists_description
   \<and> beginthreadex \<notin> set (snd (snd (ExecuteAsync event_held_system number_script 200)))"
proof -
  have h: "\<forall>k < 50. OpenEvent_exists event_held_system k"
    by (simp add: event_held_system_def never_completing_system_def)
  have c: "OpenEvent_exists event_held_system = (\<lambda>k. True)"
    by (simp add: event_held_system_def never_completing_system_def)
  show ?thesis
    using ExecuteAsync_event_held[OF h, of number_script 200] c by simp
qed

text \<open>
  Claim C6 at a number argument. \<open>number_script\<close> holds the single argument 42.
  \<open>ExecuteAsync\<close> sends the worker the type tag of the argument with a NULL \<open>lparam\<close>: the
  value 42 is not copied. \<open>BeginAsyncExecution\<close> sends the value. Neither marshals a
  stream for it.
\<close>

theorem ExecuteAsync_scalar_argument_not_copied:
  "argument_array number_script = [V_I4 42]
   \<and> snd (snd (ExecuteAsync never_completing_system number_script 0))
       = [OpenEvent, CreateEvent, beginthreadex, WaitForSingleObject 5000 WAIT_OBJECT_0, CloseHandle,
          CoMarshalInterThreadInterfaceInStream (Some 1),
          SendMessage 500 WD_ASYNC_SCRIPT_SET_DOCUMENT W_NULL (L_STREAM 1),
          SendMessage 500 WD_ASYNC_SCRIPT_SET_ARGUMENT (W_VARTYPE VT_I4) (L_VALUE 0),
          PostMessage 500 WD_ASYNC_SCRIPT_EXECUTE W_NULL (L_VALUE 0),
          SendMessage 500 WD_ASYNC_SCRIPT_IS_EXECUTION_COMPLETE W_NULL (L_VALUE 0),
          SendMessage 500 WD_ASYNC_SCRIPT_DETACH_LISTENTER W_NULL (L_VALUE 0)]
   \<and> snd (snd (snd (BeginAsyncExecution never_completing_system number_script)))
       = [OpenEvent, CreateEvent, beginthreadex, WaitForSingleObject 5000 WAIT_OBJECT_0, CloseHandle,
          CoMarshalInterThreadInterfaceInStream (Some 1),
          SendMessage 500 WD_ASYNC_SCRIPT_SET_DOCUMENT W_NULL (L_STREAM 1),
          SendMessage 500 WD_ASYNC_SCRIPT_SET_ARGUMENT (W_VARTYPE VT_I4) (L_VALUE 42),
          PostMessage 500 WD_ASYNC_SCRIPT_EXECUTE W_NULL (L_VALUE 0)]"
  by (simp add: ExecuteAsync_def BeginAsyncExecution_def start_executor_ready
        never_completing_system_def number_script_fields poll_loop.simps c_div_def Let_def)

end
